theory Spec2Isabelle
  imports Complex_Main
begin

section \<open>Data model of the layered SSD engine (ssd_core_engine_v5.py)\<close>

text \<open>
  Python floats are modelled as real numbers: rounding, overflow and NaN are outside the
  model. A numpy array of pressure components is a list of reals; \<open>np.linalg.norm\<close>
  of a one-dimensional array is the Euclidean norm, \<open>k * v\<close> scales every component and
  \<open>v - w\<close> subtracts componentwise (the engine only subtracts arrays of equal shape).
\<close>

type_synonym vec = "real list"

definition norm_v :: "vec \<Rightarrow> real" where
  "norm_v v = sqrt (sum_list (map (\<lambda>x. x * x) v))"

definition scale_v :: "real \<Rightarrow> vec \<Rightarrow> vec" where
  "scale_v k v = map (\<lambda>x. k * x) v"

definition sub_v :: "vec \<Rightarrow> vec \<Rightarrow> vec" where
  "sub_v v w = map (\<lambda>(x, y). x - y) (zip v w)"

definition zeros3 :: vec where
  "zeros3 = [0, 0, 0]"

text \<open>The dataclass \<open>StructuralPower\<close>.\<close>

record StructuralPower =
  layer_name :: string
  pressure :: real
  energy :: real
  kappa :: real
  R_value :: real
  total_power :: real

text \<open>
  The dict returned by \<open>_calculate_structural_powers\<close> always has exactly the four keys
  PHYSICAL, BASE, CORE and UPPER; it is a record with one field per key.
\<close>

record powers =
  PHYSICAL :: StructuralPower
  BASE :: StructuralPower
  CORE :: StructuralPower
  UPPER :: StructuralPower

text \<open>
  The dict returned by \<open>_integrated_leap_detection\<close>; its keys carry the prefix
  \<open>lr_\<close> here, since the state has fields of the same names.
\<close>

record leap_result =
  lr_is_critical_physical :: bool
  lr_is_critical_base :: bool
  lr_is_critical_core :: bool
  lr_is_critical_upper :: bool
  lr_dominant_layer :: string
  lr_leap_type :: string

text \<open>The dict returned by \<open>_compute_interlayer_transfers\<close> (eight fixed keys).\<close>

record transfers =
  upper2base :: real
  upper2core :: real
  base2upper :: real
  base2core :: real
  core2base :: real
  core2upper :: real
  physical2base :: real
  physical2upper :: real

text \<open>The dict returned by \<open>_compute_social_coupling\<close> (eight fixed keys).\<close>

record coupling =
  physical_energy :: real
  base_energy :: real
  core_energy :: real
  upper_energy :: real
  physical_kappa :: real
  base_kappa :: real
  core_kappa :: real
  upper_kappa :: real

text \<open>The dataclass \<open>SSDStateV5\<close>, field by field.\<close>

record SSDStateV5 =
  E_direct :: real
  E_physical :: real
  E_base :: real
  E_core :: real
  E_upper :: real
  kappa_physical :: real
  kappa_base :: real
  kappa_core :: real
  kappa_upper :: real
  F_direct :: vec
  p_physical :: vec
  p_base :: vec
  p_core :: vec
  p_upper :: vec
  j_direct :: vec
  j_physical :: vec
  j_base :: vec
  j_core :: vec
  j_upper :: vec
  is_critical_physical :: bool
  is_critical_base :: bool
  is_critical_core :: bool
  is_critical_upper :: bool
  dominant_leap_layer :: string
  leap_type :: string
  structural_powers :: "(string \<times> real) list"
  E_physical_flow :: real
  E_base_flow :: real
  E_core_flow :: real
  E_upper_flow :: real
  E_direct_flow :: real
  conversion_physical2d :: real
  conversion_base2d :: real
  conversion_core2d :: real
  conversion_upper2d :: real
  conversion_d2physical :: real
  conversion_d2base :: real
  conversion_d2core :: real
  conversion_d2upper :: real
  transfer_upper2base :: real
  transfer_upper2core :: real
  transfer_base2upper :: real
  transfer_base2core :: real
  transfer_core2base :: real
  transfer_core2upper :: real
  transfer_physical2base :: real
  transfer_physical2upper :: real
  social_coupling_physical :: real
  social_coupling_base :: real
  social_coupling_core :: real
  social_coupling_upper :: real
  kappa_coupling_physical :: real
  kappa_coupling_base :: real
  kappa_coupling_core :: real
  kappa_coupling_upper :: real

text \<open>The dataclass \<open>SSDParametersV5\<close>, field by field.\<close>

record SSDParametersV5 =
  gamma_physical2d :: real
  gamma_d2physical :: real
  gamma_base2d :: real
  gamma_core2d :: real
  gamma_upper2d :: real
  gamma_d2base :: real
  gamma_d2core :: real
  gamma_d2upper :: real
  gamma_upper2base :: real
  gamma_upper2core :: real
  gamma_base2upper :: real
  gamma_base2core :: real
  gamma_core2base :: real
  gamma_core2upper :: real
  gamma_physical2base :: real
  gamma_physical2upper :: real
  Theta_physical :: real
  Theta_base :: real
  Theta_core :: real
  Theta_upper :: real
  beta_physical :: real
  beta_base :: real
  beta_core :: real
  beta_upper :: real
  eta_physical :: real
  eta_base :: real
  eta_core :: real
  eta_upper :: real
  alpha_d :: real
  alpha_physical :: real
  alpha_base :: real
  alpha_core :: real
  alpha_upper :: real
  rho_d :: real
  rho_physical :: real
  rho_base :: real
  rho_core :: real
  rho_upper :: real
  lambda_physical :: real
  lambda_base :: real
  lambda_core :: real
  lambda_upper :: real
  kappa_min_physical :: real
  kappa_min_base :: real
  kappa_min_core :: real
  kappa_min_upper :: real
  phase_transition_multiplier_physical :: real
  enable_phase_transition :: bool
  phase_transition_multiplier_base :: real
  phase_transition_multiplier_core :: real
  phase_transition_multiplier_upper :: real
  use_integrated_leap_detection :: bool
  dynamic_theta_sensitivity :: real
  enable_interlayer_transfer :: bool
  interlayer_transfer_strength :: real
  enable_social_coupling :: bool
  zeta_physical :: real
  zeta_base :: real
  zeta_core :: real
  zeta_upper :: real
  xi_physical :: real
  xi_base :: real
  xi_core :: real
  xi_upper :: real
  omega_physical :: real
  omega_base :: real
  omega_core :: real
  omega_upper :: real
  social_coupling_strength :: real
  cooperation_threshold :: real
  reservoir_capacity :: real
  use_direct_action :: bool
  use_indirect_action :: bool

text \<open>
  The engine object \<open>SSDCoreEngineV5\<close>: its parameter set and the statistics that
  \<open>__init__\<close> sets to zero.
\<close>

record engine =
  params :: SSDParametersV5
  total_conversion_physical2d :: real
  total_conversion_base2d :: real
  total_conversion_core2d :: real
  total_conversion_upper2d :: real
  total_conversion_d2physical :: real
  total_conversion_d2base :: real
  total_conversion_d2core :: real
  total_conversion_d2upper :: real
  total_decay_physical :: real
  total_decay_base :: real
  total_decay_core :: real
  total_decay_upper :: real
  time :: real

section \<open>The private methods of the engine\<close>

text \<open>\<open>_compute_interlayer_transfers\<close>: eight directed transfers, each
  \<open>gamma_pair * E_source * strength\<close>.\<close>

definition compute_interlayer_transfers :: "SSDParametersV5 \<Rightarrow> SSDStateV5 \<Rightarrow> transfers" where
  "compute_interlayer_transfers P state =
     (let strength = interlayer_transfer_strength P in
      \<lparr> upper2base = gamma_upper2base P * E_upper state * strength,
        upper2core = gamma_upper2core P * E_upper state * strength,
        base2upper = gamma_base2upper P * E_base state * strength,
        base2core = gamma_base2core P * E_base state * strength,
        core2base = gamma_core2base P * E_core state * strength,
        core2upper = gamma_core2upper P * E_core state * strength,
        physical2base = gamma_physical2base P * E_physical state * strength,
        physical2upper = gamma_physical2upper P * E_physical state * strength \<rparr>)"

text \<open>The literal dict of zeros that \<open>step\<close> uses when interlayer transfer is disabled.\<close>

definition zero_transfers :: transfers where
  "zero_transfers =
     \<lparr> upper2base = 0, upper2core = 0, base2upper = 0, base2core = 0,
       core2base = 0, core2upper = 0, physical2base = 0, physical2upper = 0 \<rparr>"

text \<open>The literal dict of zeros of the social coupling.\<close>

definition zero_coupling :: coupling where
  "zero_coupling =
     \<lparr> physical_energy = 0, base_energy = 0, core_energy = 0, upper_energy = 0,
       physical_kappa = 0, base_kappa = 0, core_kappa = 0, upper_kappa = 0 \<rparr>"

text \<open>
  One iteration of the loop of \<open>_compute_social_coupling\<close> over
  \<open>zip(other_states, relationships)\<close>: the body for one pairing \<open>(other, relation)\<close>,
  from the accumulated dict to the updated one. The neutral branch is the source's
  \<open>continue\<close>.
\<close>

definition coupling_pair ::
  "SSDParametersV5 \<Rightarrow> SSDStateV5 \<Rightarrow> coupling \<Rightarrow> SSDStateV5 \<times> real \<Rightarrow> coupling" where
  "coupling_pair P state c pr =
     (let other = fst pr; relation = snd pr;
          strength = social_coupling_strength P;
          coop_threshold = cooperation_threshold P in
      if relation > coop_threshold then
        (let relation_factor = relation in
         c \<lparr> physical_energy := physical_energy c
                + (E_physical other - E_physical state) * zeta_physical P * relation_factor * strength,
             physical_kappa := physical_kappa c
                + (kappa_physical other - kappa_physical state) * xi_physical P * relation_factor * strength,
             base_energy := base_energy c
                + (E_base other - E_base state) * zeta_base P * relation_factor * strength,
             base_kappa := base_kappa c
                + (kappa_base other - kappa_base state) * xi_base P * relation_factor * strength,
             core_energy := core_energy c
                + (E_core other - E_core state) * zeta_core P * relation_factor * strength,
             core_kappa := core_kappa c
                + (kappa_core other - kappa_core state) * xi_core P * relation_factor * strength,
             upper_energy := upper_energy c
                + (E_upper other - E_upper state) * zeta_upper P * relation_factor * strength,
             upper_kappa := upper_kappa c
                + (kappa_upper other - kappa_upper state) * xi_upper P * relation_factor * strength \<rparr>)
      else if relation < - coop_threshold then
        (let relation_factor = \<bar>relation\<bar> in
         c \<lparr> physical_energy := physical_energy c
                + omega_physical P * E_physical other * relation_factor * strength,
             base_energy := base_energy c
                + omega_base P * E_base other * relation_factor * strength,
             core_energy := core_energy c
                + omega_core P * E_core other * relation_factor * strength,
             upper_energy := upper_energy c
                + omega_upper P * E_upper other * relation_factor * strength \<rparr>)
      else c)"

text \<open>
  \<open>_compute_social_coupling\<close>: zeros when coupling is disabled or there is no other
  agent, otherwise the loop over the zipped lists (\<open>zip\<close> stops at the shorter list, in
  Python as in HOL), starting from the dict of zeros.
\<close>

definition compute_social_coupling ::
  "SSDParametersV5 \<Rightarrow> SSDStateV5 \<Rightarrow> SSDStateV5 list \<Rightarrow> real list \<Rightarrow> coupling" where
  "compute_social_coupling P state other_states relationships =
     (if \<not> enable_social_coupling P \<or> length other_states = 0 then zero_coupling
      else foldl (coupling_pair P state) zero_coupling (zip other_states relationships))"

text \<open>\<open>_calculate_structural_powers\<close>: pressure norm times energy times inertia times
  the fixed resistance of the layer.\<close>

definition R_PHYSICAL :: real where "R_PHYSICAL = 1000"
definition R_BASE :: real where "R_BASE = 100"
definition R_CORE :: real where "R_CORE = 10"
definition R_UPPER :: real where "R_UPPER = 1"

definition calculate_structural_powers ::
  "SSDStateV5 \<Rightarrow> vec \<Rightarrow> vec \<Rightarrow> vec \<Rightarrow> vec \<Rightarrow> powers" where
  "calculate_structural_powers state p_phys p_bas p_cor p_upp =
     \<lparr> PHYSICAL =
         \<lparr> layer_name = ''PHYSICAL'', pressure = norm_v p_phys, energy = E_physical state,
           kappa = kappa_physical state, R_value = R_PHYSICAL,
           total_power = norm_v p_phys * E_physical state * kappa_physical state * R_PHYSICAL \<rparr>,
       BASE =
         \<lparr> layer_name = ''BASE'', pressure = norm_v p_bas, energy = E_base state,
           kappa = kappa_base state, R_value = R_BASE,
           total_power = norm_v p_bas * E_base state * kappa_base state * R_BASE \<rparr>,
       CORE =
         \<lparr> layer_name = ''CORE'', pressure = norm_v p_cor, energy = E_core state,
           kappa = kappa_core state, R_value = R_CORE,
           total_power = norm_v p_cor * E_core state * kappa_core state * R_CORE \<rparr>,
       UPPER =
         \<lparr> layer_name = ''UPPER'', pressure = norm_v p_upp, energy = E_upper state,
           kappa = kappa_upper state, R_value = R_UPPER,
           total_power = norm_v p_upp * E_upper state * kappa_upper state * R_UPPER \<rparr> \<rparr>"

text \<open>
  \<open>_compute_dynamic_theta\<close> (the layer name argument is unused by the source). The
  denominator \<open>kappa * R + 1\<close> is positive whenever the inertia is non-negative; at
  \<open>kappa * R = -1\<close> numpy yields an infinity or NaN without raising, which is outside
  the real-number model (HOL gives 0 for the quotient there).
\<close>

definition compute_dynamic_theta ::
  "SSDParametersV5 \<Rightarrow> real \<Rightarrow> real \<Rightarrow> real \<Rightarrow> real \<Rightarrow> real" where
  "compute_dynamic_theta P base_theta structural_power kap R =
     (let resistance = kap * R;
          influence_factor = structural_power / (resistance + 1);
          sensitivity = dynamic_theta_sensitivity P;
          dynamic_theta = base_theta * (1 - sensitivity * min 1 influence_factor);
          min_theta = base_theta * 0.3
      in max min_theta dynamic_theta)"

text \<open>
  Python's \<open>max(items, key=...)\<close> on a non-empty sequence: the running best is replaced
  only by an item whose key is strictly greater, so the first maximal item wins.
\<close>

fun py_max_from :: "string \<times> real \<Rightarrow> (string \<times> real) list \<Rightarrow> string \<times> real" where
  "py_max_from best [] = best"
| "py_max_from best (x # xs) = py_max_from (if snd x > snd best then x else best) xs"

text \<open>
  The four dynamic thresholds of \<open>_integrated_leap_detection\<close>, and its dict
  \<open>critical_layers\<close>: layer name to structural power, an association list in insertion
  order (PHYSICAL, BASE, CORE, UPPER), holding the layers whose energy is below their
  dynamic threshold.
\<close>

definition theta_physical_dynamic :: "SSDParametersV5 \<Rightarrow> SSDStateV5 \<Rightarrow> powers \<Rightarrow> real" where
  "theta_physical_dynamic P state sp =
     compute_dynamic_theta P (Theta_physical P) (total_power (PHYSICAL sp))
       (kappa_physical state) R_PHYSICAL"

definition theta_base_dynamic :: "SSDParametersV5 \<Rightarrow> SSDStateV5 \<Rightarrow> powers \<Rightarrow> real" where
  "theta_base_dynamic P state sp =
     compute_dynamic_theta P (Theta_base P) (total_power (BASE sp)) (kappa_base state) R_BASE"

definition theta_core_dynamic :: "SSDParametersV5 \<Rightarrow> SSDStateV5 \<Rightarrow> powers \<Rightarrow> real" where
  "theta_core_dynamic P state sp =
     compute_dynamic_theta P (Theta_core P) (total_power (CORE sp)) (kappa_core state) R_CORE"

definition theta_upper_dynamic :: "SSDParametersV5 \<Rightarrow> SSDStateV5 \<Rightarrow> powers \<Rightarrow> real" where
  "theta_upper_dynamic P state sp =
     compute_dynamic_theta P (Theta_upper P) (total_power (UPPER sp)) (kappa_upper state) R_UPPER"

definition critical_layers :: "SSDParametersV5 \<Rightarrow> SSDStateV5 \<Rightarrow> powers \<Rightarrow> (string \<times> real) list" where
  "critical_layers P state sp =
       (if E_physical state < theta_physical_dynamic P state sp
          then [(''PHYSICAL'', total_power (PHYSICAL sp))] else [])
     @ (if E_base state < theta_base_dynamic P state sp
          then [(''BASE'', total_power (BASE sp))] else [])
     @ (if E_core state < theta_core_dynamic P state sp
          then [(''CORE'', total_power (CORE sp))] else [])
     @ (if E_upper state < theta_upper_dynamic P state sp
          then [(''UPPER'', total_power (UPPER sp))] else [])"

text \<open>\<open>_integrated_leap_detection\<close>.\<close>

definition integrated_leap_detection ::
  "SSDParametersV5 \<Rightarrow> SSDStateV5 \<Rightarrow> powers \<Rightarrow> leap_result" where
  "integrated_leap_detection P state sp =
     (case critical_layers P state sp of
        [] \<Rightarrow> \<lparr> lr_is_critical_physical = False, lr_is_critical_base = False,
                lr_is_critical_core = False, lr_is_critical_upper = False,
                lr_dominant_layer = ''NONE'', lr_leap_type = ''NO_LEAP'' \<rparr>
      | c # cs \<Rightarrow>
          (let dominant_layer = fst (py_max_from c cs) in
           \<lparr> lr_is_critical_physical = (''PHYSICAL'' \<in> set (map fst (c # cs))),
             lr_is_critical_base = (''BASE'' \<in> set (map fst (c # cs))),
             lr_is_critical_core = (''CORE'' \<in> set (map fst (c # cs))),
             lr_is_critical_upper = (''UPPER'' \<in> set (map fst (c # cs))),
             lr_dominant_layer = dominant_layer,
             lr_leap_type = ''LEAP_'' @ dominant_layer \<rparr>))"

text \<open>\<open>_compute_dynamic_gamma\<close>: the four conversion rates of this tick, as local
  values (the parameter set is not written).\<close>

definition compute_dynamic_gamma ::
  "SSDParametersV5 \<Rightarrow> leap_result \<Rightarrow> real \<times> real \<times> real \<times> real" where
  "compute_dynamic_gamma P lr =
     (let g_physical = gamma_physical2d P;
          g_base = gamma_base2d P;
          g_core = gamma_core2d P;
          g_upper = gamma_upper2d P
      in if lr_leap_type lr = ''NO_LEAP'' then (g_physical, g_base, g_core, g_upper)
         else
          (let dominant_layer = lr_dominant_layer lr;
               g_physical = (if dominant_layer = ''PHYSICAL'' \<and> lr_is_critical_physical lr
                   then g_physical * phase_transition_multiplier_physical P else g_physical);
               g_base = (if dominant_layer = ''BASE'' \<and> lr_is_critical_base lr
                   then g_base * phase_transition_multiplier_base P else g_base);
               g_core = (if dominant_layer = ''CORE'' \<and> lr_is_critical_core lr
                   then g_core * phase_transition_multiplier_core P else g_core);
               g_upper = (if dominant_layer = ''UPPER'' \<and> lr_is_critical_upper lr
                   then g_upper * phase_transition_multiplier_upper P else g_upper);
               g_physical = (if lr_is_critical_physical lr \<and> dominant_layer \<noteq> ''PHYSICAL''
                   then g_physical * (1 + phase_transition_multiplier_physical P * 0.5)
                   else g_physical);
               g_base = (if lr_is_critical_base lr \<and> dominant_layer \<noteq> ''BASE''
                   then g_base * (1 + phase_transition_multiplier_base P * 0.5) else g_base);
               g_core = (if lr_is_critical_core lr \<and> dominant_layer \<noteq> ''CORE''
                   then g_core * (1 + phase_transition_multiplier_core P * 0.5) else g_core);
               g_upper = (if lr_is_critical_upper lr \<and> dominant_layer \<noteq> ''UPPER''
                   then g_upper * (1 + phase_transition_multiplier_upper P * 0.5) else g_upper)
           in (g_physical, g_base, g_core, g_upper)))"

text \<open>
  \<open>_legacy_phase_transition\<close>: it resets the flags and the two labels of the state,
  then amplifies the rate of every layer below its static threshold. It returns the four
  rates and mutates the state, so the model returns both.
\<close>

definition legacy_phase_transition ::
  "SSDParametersV5 \<Rightarrow> SSDStateV5 \<Rightarrow> SSDStateV5 \<times> (real \<times> real \<times> real \<times> real)" where
  "legacy_phase_transition P state =
     (let state = state \<lparr> is_critical_physical := False, is_critical_base := False,
                          is_critical_core := False, is_critical_upper := False,
                          dominant_leap_layer := ''NONE'', leap_type := ''NO_LEAP'' \<rparr>
      in if enable_phase_transition P then
           (let cp = E_physical state < Theta_physical P;
                cb = E_base state < Theta_base P;
                cc = E_core state < Theta_core P;
                cu = E_upper state < Theta_upper P
            in (state \<lparr> is_critical_physical := cp, is_critical_base := cb,
                        is_critical_core := cc, is_critical_upper := cu \<rparr>,
                (if cp then gamma_physical2d P * phase_transition_multiplier_physical P
                 else gamma_physical2d P,
                 if cb then gamma_base2d P * phase_transition_multiplier_base P
                 else gamma_base2d P,
                 if cc then gamma_core2d P * phase_transition_multiplier_core P
                 else gamma_core2d P,
                 if cu then gamma_upper2d P * phase_transition_multiplier_upper P
                 else gamma_upper2d P)))
         else (state, (gamma_physical2d P, gamma_base2d P, gamma_core2d P, gamma_upper2d P)))"

section \<open>The phases of \<open>step\<close>, in the order of the source\<close>

text \<open>
  \<open>step\<close> mutates the state object field by field; each phase below is one numbered
  block of the source, from the state before the block to the state after it. Optional
  arguments (\<open>F_direct\<close>, \<open>other_states\<close>, \<open>relationships\<close>) are options, \<open>None\<close> as
  in the source. The other agents' states are values (snapshots), distinct from the
  state being stepped.
\<close>

text \<open>Block 0: the inputs are stored in the state.\<close>

definition store_inputs ::
  "SSDStateV5 \<Rightarrow> vec \<Rightarrow> vec \<Rightarrow> vec \<Rightarrow> vec \<Rightarrow> vec option \<Rightarrow> SSDStateV5" where
  "store_inputs state pp pb pc pu Fd =
     (let state = state \<lparr> p_physical := pp, p_base := pb, p_core := pc, p_upper := pu \<rparr>
      in case Fd of None \<Rightarrow> state | Some F \<Rightarrow> state \<lparr> F_direct := F \<rparr>)"

text \<open>Block 1: the reaction of every layer is its inertia times its pressure.\<close>

definition compute_reactions :: "SSDStateV5 \<Rightarrow> SSDStateV5" where
  "compute_reactions state =
     state \<lparr> j_physical := scale_v (kappa_physical state) (p_physical state),
             j_base := scale_v (kappa_base state) (p_base state),
             j_core := scale_v (kappa_core state) (p_core state),
             j_upper := scale_v (kappa_upper state) (p_upper state),
             j_direct := zeros3 \<rparr>"

text \<open>Block 2: energy production, the norm of pressure minus reaction, per layer.\<close>

definition E_physical_production :: "SSDParametersV5 \<Rightarrow> SSDStateV5 \<Rightarrow> real" where
  "E_physical_production P state =
     alpha_physical P * norm_v (sub_v (p_physical state) (j_physical state))"

definition E_base_production :: "SSDParametersV5 \<Rightarrow> SSDStateV5 \<Rightarrow> real" where
  "E_base_production P state =
     alpha_base P * norm_v (sub_v (p_base state) (j_base state))"

definition E_core_production :: "SSDParametersV5 \<Rightarrow> SSDStateV5 \<Rightarrow> real" where
  "E_core_production P state =
     alpha_core P * norm_v (sub_v (p_core state) (j_core state))"

definition E_upper_production :: "SSDParametersV5 \<Rightarrow> SSDStateV5 \<Rightarrow> real" where
  "E_upper_production P state =
     alpha_upper P * norm_v (sub_v (p_upper state) (j_upper state))"

definition E_direct_production :: "SSDParametersV5 \<Rightarrow> vec option \<Rightarrow> real" where
  "E_direct_production P Fd =
     (case Fd of Some F \<Rightarrow> alpha_d P * norm_v F | None \<Rightarrow> 0)"

text \<open>Block 3: the stored reactions decay.\<close>

definition decay_reactions :: "SSDParametersV5 \<Rightarrow> SSDStateV5 \<Rightarrow> SSDStateV5" where
  "decay_reactions P state =
     state \<lparr> j_physical := scale_v (1 - rho_physical P) (j_physical state),
             j_base := scale_v (1 - rho_base P) (j_base state),
             j_core := scale_v (1 - rho_core P) (j_core state),
             j_upper := scale_v (1 - rho_upper P) (j_upper state),
             j_direct := scale_v (1 - rho_d P) (j_direct state) \<rparr>"

text \<open>Block 4: inertia learning, \<open>kappa += eta * |p| * dt\<close>.\<close>

definition learn_kappa :: "SSDParametersV5 \<Rightarrow> SSDStateV5 \<Rightarrow> real \<Rightarrow> SSDStateV5" where
  "learn_kappa P state dt =
     state \<lparr> kappa_physical := kappa_physical state
                + eta_physical P * norm_v (p_physical state) * dt,
             kappa_base := kappa_base state + eta_base P * norm_v (p_base state) * dt,
             kappa_core := kappa_core state + eta_core P * norm_v (p_core state) * dt,
             kappa_upper := kappa_upper state + eta_upper P * norm_v (p_upper state) * dt \<rparr>"

text \<open>Block 5: natural decay of the inertia, \<open>kappa *= 1 - lambda * dt\<close>.\<close>

definition forget_kappa :: "SSDParametersV5 \<Rightarrow> SSDStateV5 \<Rightarrow> real \<Rightarrow> SSDStateV5" where
  "forget_kappa P state dt =
     state \<lparr> kappa_physical := kappa_physical state * (1 - lambda_physical P * dt),
             kappa_base := kappa_base state * (1 - lambda_base P * dt),
             kappa_core := kappa_core state * (1 - lambda_core P * dt),
             kappa_upper := kappa_upper state * (1 - lambda_upper P * dt) \<rparr>"

text \<open>Block 5.5: the inertia part of the social coupling, when both lists are given.\<close>

definition couple_kappa ::
  "SSDParametersV5 \<Rightarrow> SSDStateV5 \<Rightarrow> SSDStateV5 list option \<Rightarrow> real list option \<Rightarrow> real
     \<Rightarrow> SSDStateV5" where
  "couple_kappa P state other_states relationships dt =
     (case other_states of None \<Rightarrow> state
      | Some os \<Rightarrow>
         (case relationships of None \<Rightarrow> state
          | Some rs \<Rightarrow>
             (let social_coupling_kappa = compute_social_coupling P state os rs in
              state \<lparr> kappa_physical := kappa_physical state
                         + physical_kappa social_coupling_kappa * dt,
                      kappa_base := kappa_base state + base_kappa social_coupling_kappa * dt,
                      kappa_core := kappa_core state + core_kappa social_coupling_kappa * dt,
                      kappa_upper := kappa_upper state
                         + upper_kappa social_coupling_kappa * dt \<rparr>)))"

text \<open>The floor of the inertia.\<close>

definition clamp_kappa :: "SSDParametersV5 \<Rightarrow> SSDStateV5 \<Rightarrow> SSDStateV5" where
  "clamp_kappa P state =
     state \<lparr> kappa_physical := max (kappa_min_physical P) (kappa_physical state),
             kappa_base := max (kappa_min_base P) (kappa_base state),
             kappa_core := max (kappa_min_core P) (kappa_core state),
             kappa_upper := max (kappa_min_upper P) (kappa_upper state) \<rparr>"

text \<open>
  Block 6: leap detection, integrated or legacy, giving the state with its flags and labels
  set and the four layer-to-direct rates of this tick.
\<close>

definition detect_leap ::
  "SSDParametersV5 \<Rightarrow> SSDStateV5 \<Rightarrow> vec \<Rightarrow> vec \<Rightarrow> vec \<Rightarrow> vec
     \<Rightarrow> SSDStateV5 \<times> (real \<times> real \<times> real \<times> real)" where
  "detect_leap P state pp pb pc pu =
     (if use_integrated_leap_detection P then
        (let sp = calculate_structural_powers state pp pb pc pu;
             state = state \<lparr> structural_powers :=
                        [(''PHYSICAL'', total_power (PHYSICAL sp)),
                         (''BASE'', total_power (BASE sp)),
                         (''CORE'', total_power (CORE sp)),
                         (''UPPER'', total_power (UPPER sp))] \<rparr>;
             leap = integrated_leap_detection P state sp;
             state = state \<lparr> dominant_leap_layer := lr_dominant_layer leap,
                              leap_type := lr_leap_type leap,
                              is_critical_physical := lr_is_critical_physical leap,
                              is_critical_base := lr_is_critical_base leap,
                              is_critical_core := lr_is_critical_core leap,
                              is_critical_upper := lr_is_critical_upper leap \<rparr>
         in (state, compute_dynamic_gamma P leap))
      else legacy_phase_transition P state)"

text \<open>Block 7, second half: the interlayer transfers of this tick.\<close>

definition interlayer_transfers :: "SSDParametersV5 \<Rightarrow> SSDStateV5 \<Rightarrow> transfers" where
  "interlayer_transfers P state =
     (if enable_interlayer_transfer P then compute_interlayer_transfers P state
      else zero_transfers)"

text \<open>Block 8.5: the social coupling of this tick.\<close>

definition social_coupling ::
  "SSDParametersV5 \<Rightarrow> SSDStateV5 \<Rightarrow> SSDStateV5 list option \<Rightarrow> real list option \<Rightarrow> coupling" where
  "social_coupling P state other_states relationships =
     (case other_states of None \<Rightarrow> zero_coupling
      | Some os \<Rightarrow>
         (case relationships of None \<Rightarrow> zero_coupling
          | Some rs \<Rightarrow> compute_social_coupling P state os rs))"

text \<open>
  Block 9: the five energy rates. Each takes the local values of the source under their
  own names: production, conversion to and from direct, decay, the dict of transfers
  and the dict of the social coupling.
\<close>

definition dE_physical :: "real \<Rightarrow> real \<Rightarrow> real \<Rightarrow> real \<Rightarrow> transfers \<Rightarrow> coupling \<Rightarrow> real" where
  "dE_physical production conversion_2d conversion_d2 decay T C =
     production - conversion_2d + conversion_d2 - decay
       - physical2base T - physical2upper T + physical_energy C"

definition dE_base :: "real \<Rightarrow> real \<Rightarrow> real \<Rightarrow> real \<Rightarrow> transfers \<Rightarrow> coupling \<Rightarrow> real" where
  "dE_base production conversion_2d conversion_d2 decay T C =
     production - conversion_2d + conversion_d2 - decay
       + upper2base T + core2base T + physical2base T - base2upper T - base2core T
       + base_energy C"

definition dE_core :: "real \<Rightarrow> real \<Rightarrow> real \<Rightarrow> real \<Rightarrow> transfers \<Rightarrow> coupling \<Rightarrow> real" where
  "dE_core production conversion_2d conversion_d2 decay T C =
     production - conversion_2d + conversion_d2 - decay
       + upper2core T + base2core T - core2base T - core2upper T + core_energy C"

definition dE_upper :: "real \<Rightarrow> real \<Rightarrow> real \<Rightarrow> real \<Rightarrow> transfers \<Rightarrow> coupling \<Rightarrow> real" where
  "dE_upper production conversion_2d conversion_d2 decay T C =
     production - conversion_2d + conversion_d2 - decay
       + base2upper T + core2upper T + physical2upper T - upper2base T - upper2core T
       + upper_energy C"

definition dE_direct ::
  "real \<Rightarrow> real \<Rightarrow> real \<Rightarrow> real \<Rightarrow> real \<Rightarrow> real \<Rightarrow> real \<Rightarrow> real \<Rightarrow> real \<Rightarrow> real" where
  "dE_direct production c_physical2d c_base2d c_core2d c_upper2d
       c_d2physical c_d2base c_d2core c_d2upper =
     production + c_physical2d + c_base2d + c_core2d + c_upper2d
       - c_d2physical - c_d2base - c_d2core - c_d2upper"

text \<open>
  The local values of blocks 7 and 8: the eight conversions and the four decays of this
  tick. The conversions carry the prefix \<open>c_\<close>, since the state has diagnostic fields of
  the same names.
\<close>

record tick =
  c_physical2d :: real
  c_base2d :: real
  c_core2d :: real
  c_upper2d :: real
  c_d2physical :: real
  c_d2base :: real
  c_d2core :: real
  c_d2upper :: real
  decay_physical :: real
  decay_base :: real
  decay_core :: real
  decay_upper :: real

definition tick_values ::
  "SSDParametersV5 \<Rightarrow> SSDStateV5 \<Rightarrow> real \<times> real \<times> real \<times> real \<Rightarrow> tick" where
  "tick_values P state gammas =
     (case gammas of (g_physical2d, g_base2d, g_core2d, g_upper2d) \<Rightarrow>
      \<lparr> c_physical2d = g_physical2d * E_physical state,
        c_base2d = g_base2d * E_base state,
        c_core2d = g_core2d * E_core state,
        c_upper2d = g_upper2d * E_upper state,
        c_d2physical = gamma_d2physical P * E_direct state,
        c_d2base = gamma_d2base P * E_direct state,
        c_d2core = gamma_d2core P * E_direct state,
        c_d2upper = gamma_d2upper P * E_direct state,
        decay_physical = beta_physical P * E_physical state,
        decay_base = beta_base P * E_base state,
        decay_core = beta_core P * E_core state,
        decay_upper = beta_upper P * E_upper state \<rparr>)"

text \<open>Block 8.5, second half: the coupling is recorded in the diagnostic fields.\<close>

definition record_coupling :: "SSDStateV5 \<Rightarrow> coupling \<Rightarrow> SSDStateV5" where
  "record_coupling state C =
     state \<lparr> social_coupling_physical := physical_energy C,
             social_coupling_base := base_energy C,
             social_coupling_core := core_energy C,
             social_coupling_upper := upper_energy C,
             kappa_coupling_physical := physical_kappa C,
             kappa_coupling_base := base_kappa C,
             kappa_coupling_core := core_kappa C,
             kappa_coupling_upper := upper_kappa C \<rparr>"

text \<open>Block 10: explicit Euler update of the five energies, then the clamp at zero.\<close>

definition update_energy ::
  "SSDStateV5 \<Rightarrow> real \<Rightarrow> real \<Rightarrow> real \<Rightarrow> real \<Rightarrow> real \<Rightarrow> real \<Rightarrow> SSDStateV5" where
  "update_energy state dEp dEb dEc dEu dEd dt =
     state \<lparr> E_physical := E_physical state + dEp * dt,
             E_base := E_base state + dEb * dt,
             E_core := E_core state + dEc * dt,
             E_upper := E_upper state + dEu * dt,
             E_direct := E_direct state + dEd * dt \<rparr>"

definition clamp_energy :: "SSDStateV5 \<Rightarrow> SSDStateV5" where
  "clamp_energy state =
     state \<lparr> E_physical := max 0 (E_physical state),
             E_base := max 0 (E_base state),
             E_core := max 0 (E_core state),
             E_upper := max 0 (E_upper state),
             E_direct := max 0 (E_direct state) \<rparr>"

text \<open>Block 11: the diagnostic fields of the tick.\<close>

definition record_diagnostics ::
  "SSDStateV5 \<Rightarrow> real \<Rightarrow> real \<Rightarrow> real \<Rightarrow> real \<Rightarrow> real \<Rightarrow> tick \<Rightarrow> transfers \<Rightarrow> SSDStateV5" where
  "record_diagnostics state dEp dEb dEc dEu dEd V T =
     state \<lparr> E_physical_flow := dEp, E_base_flow := dEb, E_core_flow := dEc,
             E_upper_flow := dEu, E_direct_flow := dEd,
             conversion_physical2d := c_physical2d V,
             conversion_base2d := c_base2d V,
             conversion_core2d := c_core2d V,
             conversion_upper2d := c_upper2d V,
             conversion_d2physical := c_d2physical V,
             conversion_d2base := c_d2base V,
             conversion_d2core := c_d2core V,
             conversion_d2upper := c_d2upper V,
             transfer_upper2base := upper2base T,
             transfer_upper2core := upper2core T,
             transfer_base2upper := base2upper T,
             transfer_base2core := base2core T,
             transfer_core2base := core2base T,
             transfer_core2upper := core2upper T,
             transfer_physical2base := physical2base T,
             transfer_physical2upper := physical2upper T \<rparr>"

text \<open>Block 12: the statistics of the engine object.\<close>

definition update_statistics :: "engine \<Rightarrow> tick \<Rightarrow> real \<Rightarrow> engine" where
  "update_statistics self V dt =
     self \<lparr> total_conversion_physical2d := total_conversion_physical2d self + c_physical2d V * dt,
            total_conversion_base2d := total_conversion_base2d self + c_base2d V * dt,
            total_conversion_core2d := total_conversion_core2d self + c_core2d V * dt,
            total_conversion_upper2d := total_conversion_upper2d self + c_upper2d V * dt,
            total_conversion_d2physical := total_conversion_d2physical self + c_d2physical V * dt,
            total_conversion_d2base := total_conversion_d2base self + c_d2base V * dt,
            total_conversion_d2core := total_conversion_d2core self + c_d2core V * dt,
            total_conversion_d2upper := total_conversion_d2upper self + c_d2upper V * dt,
            total_decay_physical := total_decay_physical self + decay_physical V * dt,
            total_decay_base := total_decay_base self + decay_base V * dt,
            total_decay_core := total_decay_core self + decay_core V * dt,
            total_decay_upper := total_decay_upper self + decay_upper V * dt,
            time := time self + dt \<rparr>"

section \<open>\<open>SSDCoreEngineV5.step\<close>\<close>

text \<open>
  The state after blocks 0 and 1 (inputs stored, reactions computed): the productions of
  block 2 are computed on it.
\<close>

definition state_reacted ::
  "SSDStateV5 \<Rightarrow> vec \<Rightarrow> vec \<Rightarrow> vec \<Rightarrow> vec \<Rightarrow> vec option \<Rightarrow> SSDStateV5" where
  "state_reacted state pp pb pc pu Fd = compute_reactions (store_inputs state pp pb pc pu Fd)"

text \<open>The state after blocks 3 to 5 (reaction decay, inertia learning, inertia decay).\<close>

definition state_forgotten ::
  "SSDParametersV5 \<Rightarrow> SSDStateV5 \<Rightarrow> vec \<Rightarrow> vec \<Rightarrow> vec \<Rightarrow> vec \<Rightarrow> vec option \<Rightarrow> real
     \<Rightarrow> SSDStateV5" where
  "state_forgotten P state pp pb pc pu Fd dt =
     forget_kappa P
       (learn_kappa P (decay_reactions P (state_reacted state pp pb pc pu Fd)) dt) dt"

text \<open>The state after block 5.5 and the floor of the inertia.\<close>

definition state_learned ::
  "SSDParametersV5 \<Rightarrow> SSDStateV5 \<Rightarrow> vec \<Rightarrow> vec \<Rightarrow> vec \<Rightarrow> vec \<Rightarrow> vec option
     \<Rightarrow> SSDStateV5 list option \<Rightarrow> real list option \<Rightarrow> real \<Rightarrow> SSDStateV5" where
  "state_learned P state pp pb pc pu Fd other_states relationships dt =
     clamp_kappa P
       (couple_kappa P (state_forgotten P state pp pb pc pu Fd dt)
          other_states relationships dt)"

text \<open>Block 6 on that state: the state with flags and labels set, and the four rates.\<close>

definition leap_phase ::
  "SSDParametersV5 \<Rightarrow> SSDStateV5 \<Rightarrow> vec \<Rightarrow> vec \<Rightarrow> vec \<Rightarrow> vec \<Rightarrow> vec option
     \<Rightarrow> SSDStateV5 list option \<Rightarrow> real list option \<Rightarrow> real
     \<Rightarrow> SSDStateV5 \<times> (real \<times> real \<times> real \<times> real)" where
  "leap_phase P state pp pb pc pu Fd other_states relationships dt =
     detect_leap P (state_learned P state pp pb pc pu Fd other_states relationships dt)
       pp pb pc pu"

text \<open>
  \<open>step\<close>: the engine object and the state go in, the mutated state and the engine
  object with its updated statistics come out.
\<close>

definition step ::
  "engine \<Rightarrow> SSDStateV5 \<Rightarrow> vec \<Rightarrow> vec \<Rightarrow> vec \<Rightarrow> vec \<Rightarrow> vec option
     \<Rightarrow> SSDStateV5 list option \<Rightarrow> real list option \<Rightarrow> real \<Rightarrow> SSDStateV5 \<times> engine" where
  "step self state pp pb pc pu Fd other_states relationships dt =
     (let P = params self;
          reacted = state_reacted state pp pb pc pu Fd;
          leapt = leap_phase P state pp pb pc pu Fd other_states relationships dt;
          state = fst leapt;
          V = tick_values P state (snd leapt);
          T = interlayer_transfers P state;
          C = social_coupling P state other_states relationships;
          state = record_coupling state C;
          dEp = dE_physical (E_physical_production P reacted)
                  (c_physical2d V) (c_d2physical V) (decay_physical V) T C;
          dEb = dE_base (E_base_production P reacted)
                  (c_base2d V) (c_d2base V) (decay_base V) T C;
          dEc = dE_core (E_core_production P reacted)
                  (c_core2d V) (c_d2core V) (decay_core V) T C;
          dEu = dE_upper (E_upper_production P reacted)
                  (c_upper2d V) (c_d2upper V) (decay_upper V) T C;
          dEd = dE_direct (E_direct_production P Fd)
                  (c_physical2d V) (c_base2d V) (c_core2d V) (c_upper2d V)
                  (c_d2physical V) (c_d2base V) (c_d2core V) (c_d2upper V);
          state = clamp_energy (update_energy state dEp dEb dEc dEu dEd dt);
          state = record_diagnostics state dEp dEb dEc dEu dEd V T
      in (state, update_statistics self V dt))"

text \<open>The defaults of the two dataclasses and a freshly constructed engine.\<close>

definition default_state :: SSDStateV5 where
  "default_state =
     \<lparr> E_direct = 0, E_physical = 0, E_base = 0, E_core = 0, E_upper = 0,
       kappa_physical = 1, kappa_base = 1, kappa_core = 1, kappa_upper = 1,
       F_direct = zeros3, p_physical = zeros3, p_base = zeros3, p_core = zeros3,
       p_upper = zeros3, j_direct = zeros3, j_physical = zeros3, j_base = zeros3,
       j_core = zeros3, j_upper = zeros3,
       is_critical_physical = False, is_critical_base = False, is_critical_core = False,
       is_critical_upper = False, dominant_leap_layer = ''NONE'', leap_type = ''NO_LEAP'',
       structural_powers = [],
       E_physical_flow = 0, E_base_flow = 0, E_core_flow = 0, E_upper_flow = 0,
       E_direct_flow = 0,
       conversion_physical2d = 0, conversion_base2d = 0, conversion_core2d = 0,
       conversion_upper2d = 0, conversion_d2physical = 0, conversion_d2base = 0,
       conversion_d2core = 0, conversion_d2upper = 0,
       transfer_upper2base = 0, transfer_upper2core = 0, transfer_base2upper = 0,
       transfer_base2core = 0, transfer_core2base = 0, transfer_core2upper = 0,
       transfer_physical2base = 0, transfer_physical2upper = 0,
       social_coupling_physical = 0, social_coupling_base = 0, social_coupling_core = 0,
       social_coupling_upper = 0, kappa_coupling_physical = 0, kappa_coupling_base = 0,
       kappa_coupling_core = 0, kappa_coupling_upper = 0 \<rparr>"

definition default_params :: SSDParametersV5 where
  "default_params =
     \<lparr> gamma_physical2d = 0.15, gamma_d2physical = 0.01,
       gamma_base2d = 0.08, gamma_core2d = 0.05, gamma_upper2d = 0.03,
       gamma_d2base = 0.03, gamma_d2core = 0.02, gamma_d2upper = 0.04,
       gamma_upper2base = - 0.04, gamma_upper2core = 0.03,
       gamma_base2upper = 0.05, gamma_base2core = - 0.02,
       gamma_core2base = 0.04, gamma_core2upper = 0.02,
       gamma_physical2base = 0.06, gamma_physical2upper = 0.03,
       Theta_physical = 200, Theta_base = 150, Theta_core = 100, Theta_upper = 80,
       beta_physical = 0.001, beta_base = 0.005, beta_core = 0.01, beta_upper = 0.02,
       eta_physical = 0.9, eta_base = 0.8, eta_core = 0.5, eta_upper = 0.3,
       alpha_d = 1, alpha_physical = 1, alpha_base = 1, alpha_core = 1, alpha_upper = 1,
       rho_d = 0.1, rho_physical = 0.1, rho_base = 0.1, rho_core = 0.1, rho_upper = 0.1,
       lambda_physical = 0.05, lambda_base = 0.05, lambda_core = 0.05, lambda_upper = 0.05,
       kappa_min_physical = 0.9, kappa_min_base = 0.8, kappa_min_core = 0.5,
       kappa_min_upper = 0.3,
       phase_transition_multiplier_physical = 20,
       enable_phase_transition = True,
       phase_transition_multiplier_base = 15,
       phase_transition_multiplier_core = 10,
       phase_transition_multiplier_upper = 8,
       use_integrated_leap_detection = True,
       dynamic_theta_sensitivity = 0.3,
       enable_interlayer_transfer = True,
       interlayer_transfer_strength = 1,
       enable_social_coupling = True,
       zeta_physical = 0.02, zeta_base = 0.08, zeta_core = 0.05, zeta_upper = 0.03,
       xi_physical = 0.01, xi_base = 0.04, xi_core = 0.06, xi_upper = 0.05,
       omega_physical = - 0.01, omega_base = - 0.06, omega_core = - 0.03,
       omega_upper = - 0.02,
       social_coupling_strength = 1, cooperation_threshold = 0.5,
       reservoir_capacity = 1000,
       use_direct_action = True, use_indirect_action = True \<rparr>"

definition new_engine :: "SSDParametersV5 \<Rightarrow> engine" where
  "new_engine P =
     \<lparr> params = P,
       total_conversion_physical2d = 0, total_conversion_base2d = 0,
       total_conversion_core2d = 0, total_conversion_upper2d = 0,
       total_conversion_d2physical = 0, total_conversion_d2base = 0,
       total_conversion_d2core = 0, total_conversion_d2upper = 0,
       total_decay_physical = 0, total_decay_base = 0, total_decay_core = 0,
       total_decay_upper = 0, time = 0 \<rparr>"

section \<open>The stochastic leap of ssd_werewolf_game_v3.py\<close>

text \<open>
  \<open>WerewolfGameV3.check_probabilistic_jump\<close> fixes the baseline rate \<open>h0 = 0.01\<close>, the
  sensitivity \<open>gamma = 50\<close> and \<open>dt = 0.1\<close> as local constants. The hazard and the jump
  probability take them as arguments here; \<open>check_probabilistic_jump\<close> instantiates
  them as the source does. Its argument \<open>u\<close> is the value drawn by
  \<open>np.random.random()\<close>; the result is \<open>None\<close> when no leap fires and otherwise the flag
  \<open>spontaneous\<close> handed to \<open>handle_phase_transition\<close>.
\<close>

definition hazard :: "real \<Rightarrow> real \<Rightarrow> real \<Rightarrow> real \<Rightarrow> real" where
  "hazard h0 gamma Theta_critical E_indirect =
     (if E_indirect < Theta_critical then
        (let delta_E = Theta_critical - E_indirect in h0 * exp (delta_E / gamma))
      else h0)"

definition jump_probability :: "real \<Rightarrow> real \<Rightarrow> real \<Rightarrow> real \<Rightarrow> real \<Rightarrow> real" where
  "jump_probability h0 gamma dt Theta_critical E_indirect =
     1 - exp (- hazard h0 gamma Theta_critical E_indirect * dt)"

definition check_probabilistic_jump :: "real \<Rightarrow> real \<Rightarrow> real \<Rightarrow> bool option" where
  "check_probabilistic_jump Theta_critical E_indirect u =
     (if u < jump_probability (1 / 100) 50 (1 / 10) Theta_critical E_indirect
      then Some (E_indirect \<ge> Theta_critical) else None)"

section \<open>The formulas of the specification, for comparison\<close>

text \<open>
  Production as the specification words it, from the magnitudes of pressure and
  reaction: \<open>alpha * max(0, |pressure| - |reaction|)\<close>.
\<close>

definition spec_production :: "real \<Rightarrow> vec \<Rightarrow> vec \<Rightarrow> real" where
  "spec_production alpha p j = alpha * max 0 (norm_v p - norm_v j)"

text \<open>
  The inertia update as the specification words it:
  \<open>delta = eta * (|p| * |j| - rho * |j|^2) - lambda * (kappa - kappa_min)\<close>, integrated by
  \<open>kappa += delta * dt\<close> and clamped at the floor.
\<close>

definition spec_kappa_update ::
  "real \<Rightarrow> real \<Rightarrow> real \<Rightarrow> real \<Rightarrow> real \<Rightarrow> vec \<Rightarrow> vec \<Rightarrow> real \<Rightarrow> real" where
  "spec_kappa_update eta rho lam kappa_min kap p j dt =
     max kappa_min
       (kap + (eta * (norm_v p * norm_v j - rho * (norm_v j)\<^sup>2) - lam * (kap - kappa_min)) * dt)"

section \<open>Vectors and norms\<close>

lemma sum_sq_scale:
  "(\<Sum>x\<leftarrow>v. (k * x) * (k * x)) = k\<^sup>2 * (\<Sum>x\<leftarrow>v. x * x)" for k :: real
proof (induction v)
  case Nil
  show ?case by simp
next
  case (Cons a v)
  have "k * a * (k * a) = k\<^sup>2 * (a * a)" by (simp add: power2_eq_square)
  with Cons show ?case by (simp add: distrib_left)
qed

lemma sum_sq_nonneg: "0 \<le> (\<Sum>x\<leftarrow>v. x * x)" for v :: "real list"
  by (induction v) simp_all

lemma norm_v_scale: "norm_v (scale_v k v) = \<bar>k\<bar> * norm_v v"
  by (simp add: norm_v_def scale_v_def o_def sum_sq_scale real_sqrt_mult)

lemma sub_v_scale: "sub_v v (scale_v k v) = scale_v (1 - k) v"
  by (induction v) (simp_all add: sub_v_def scale_v_def algebra_simps)

lemma norm_v_residual: "norm_v (sub_v v (scale_v k v)) = \<bar>1 - k\<bar> * norm_v v"
  by (simp add: sub_v_scale norm_v_scale)

lemma norm_v_nonneg: "0 \<le> norm_v v"
  by (simp add: norm_v_def sum_sq_nonneg)

lemma norm_v_zeros3: "norm_v zeros3 = 0"
  by (simp add: norm_v_def zeros3_def)

lemma norm_v_unit: "norm_v [1, 0, 0] = 1"
  by (simp add: norm_v_def)

section \<open>What each phase of \<open>step\<close> reads and writes\<close>

lemma state_reacted_fields:
  "p_physical (state_reacted s pp pb pc pu Fd) = pp"
  "p_base (state_reacted s pp pb pc pu Fd) = pb"
  "p_core (state_reacted s pp pb pc pu Fd) = pc"
  "p_upper (state_reacted s pp pb pc pu Fd) = pu"
  "j_physical (state_reacted s pp pb pc pu Fd) = scale_v (kappa_physical s) pp"
  "j_base (state_reacted s pp pb pc pu Fd) = scale_v (kappa_base s) pb"
  "j_core (state_reacted s pp pb pc pu Fd) = scale_v (kappa_core s) pc"
  "j_upper (state_reacted s pp pb pc pu Fd) = scale_v (kappa_upper s) pu"
  "kappa_physical (state_reacted s pp pb pc pu Fd) = kappa_physical s"
  "kappa_base (state_reacted s pp pb pc pu Fd) = kappa_base s"
  "kappa_core (state_reacted s pp pb pc pu Fd) = kappa_core s"
  "kappa_upper (state_reacted s pp pb pc pu Fd) = kappa_upper s"
  "E_physical (state_reacted s pp pb pc pu Fd) = E_physical s"
  "E_base (state_reacted s pp pb pc pu Fd) = E_base s"
  "E_core (state_reacted s pp pb pc pu Fd) = E_core s"
  "E_upper (state_reacted s pp pb pc pu Fd) = E_upper s"
  "E_direct (state_reacted s pp pb pc pu Fd) = E_direct s"
  by (simp_all add: state_reacted_def compute_reactions_def store_inputs_def Let_def
        split: option.split)

lemma state_forgotten_kappa:
  "kappa_physical (state_forgotten P s pp pb pc pu Fd dt)
     = (kappa_physical s + eta_physical P * norm_v pp * dt) * (1 - lambda_physical P * dt)"
  "kappa_base (state_forgotten P s pp pb pc pu Fd dt)
     = (kappa_base s + eta_base P * norm_v pb * dt) * (1 - lambda_base P * dt)"
  "kappa_core (state_forgotten P s pp pb pc pu Fd dt)
     = (kappa_core s + eta_core P * norm_v pc * dt) * (1 - lambda_core P * dt)"
  "kappa_upper (state_forgotten P s pp pb pc pu Fd dt)
     = (kappa_upper s + eta_upper P * norm_v pu * dt) * (1 - lambda_upper P * dt)"
  by (simp_all add: state_forgotten_def forget_kappa_def learn_kappa_def decay_reactions_def
        state_reacted_fields)

lemma state_forgotten_energy:
  "E_physical (state_forgotten P s pp pb pc pu Fd dt) = E_physical s"
  "E_base (state_forgotten P s pp pb pc pu Fd dt) = E_base s"
  "E_core (state_forgotten P s pp pb pc pu Fd dt) = E_core s"
  "E_upper (state_forgotten P s pp pb pc pu Fd dt) = E_upper s"
  "E_direct (state_forgotten P s pp pb pc pu Fd dt) = E_direct s"
  by (simp_all add: state_forgotten_def forget_kappa_def learn_kappa_def decay_reactions_def
        state_reacted_fields)

lemma couple_kappa_fields:
  "kappa_physical (couple_kappa P st os rs dt)
     = kappa_physical st + physical_kappa (social_coupling P st os rs) * dt"
  "kappa_base (couple_kappa P st os rs dt)
     = kappa_base st + base_kappa (social_coupling P st os rs) * dt"
  "kappa_core (couple_kappa P st os rs dt)
     = kappa_core st + core_kappa (social_coupling P st os rs) * dt"
  "kappa_upper (couple_kappa P st os rs dt)
     = kappa_upper st + upper_kappa (social_coupling P st os rs) * dt"
  by (simp_all add: couple_kappa_def social_coupling_def zero_coupling_def Let_def
        split: option.split)

lemma couple_kappa_energy:
  "E_physical (couple_kappa P st os rs dt) = E_physical st"
  "E_base (couple_kappa P st os rs dt) = E_base st"
  "E_core (couple_kappa P st os rs dt) = E_core st"
  "E_upper (couple_kappa P st os rs dt) = E_upper st"
  "E_direct (couple_kappa P st os rs dt) = E_direct st"
  by (simp_all add: couple_kappa_def Let_def split: option.split)

lemma state_learned_kappa:
  "kappa_physical (state_learned P s pp pb pc pu Fd os rs dt)
     = max (kappa_min_physical P)
         ((kappa_physical s + eta_physical P * norm_v pp * dt) * (1 - lambda_physical P * dt)
          + physical_kappa (social_coupling P (state_forgotten P s pp pb pc pu Fd dt) os rs) * dt)"
  "kappa_base (state_learned P s pp pb pc pu Fd os rs dt)
     = max (kappa_min_base P)
         ((kappa_base s + eta_base P * norm_v pb * dt) * (1 - lambda_base P * dt)
          + base_kappa (social_coupling P (state_forgotten P s pp pb pc pu Fd dt) os rs) * dt)"
  "kappa_core (state_learned P s pp pb pc pu Fd os rs dt)
     = max (kappa_min_core P)
         ((kappa_core s + eta_core P * norm_v pc * dt) * (1 - lambda_core P * dt)
          + core_kappa (social_coupling P (state_forgotten P s pp pb pc pu Fd dt) os rs) * dt)"
  "kappa_upper (state_learned P s pp pb pc pu Fd os rs dt)
     = max (kappa_min_upper P)
         ((kappa_upper s + eta_upper P * norm_v pu * dt) * (1 - lambda_upper P * dt)
          + upper_kappa (social_coupling P (state_forgotten P s pp pb pc pu Fd dt) os rs) * dt)"
  by (simp_all add: state_learned_def clamp_kappa_def couple_kappa_fields state_forgotten_kappa)

lemma state_learned_energy:
  "E_physical (state_learned P s pp pb pc pu Fd os rs dt) = E_physical s"
  "E_base (state_learned P s pp pb pc pu Fd os rs dt) = E_base s"
  "E_core (state_learned P s pp pb pc pu Fd os rs dt) = E_core s"
  "E_upper (state_learned P s pp pb pc pu Fd os rs dt) = E_upper s"
  "E_direct (state_learned P s pp pb pc pu Fd os rs dt) = E_direct s"
  by (simp_all add: state_learned_def clamp_kappa_def couple_kappa_energy state_forgotten_energy)

lemma detect_leap_energy:
  "E_physical (fst (detect_leap P s pp pb pc pu)) = E_physical s"
  "E_base (fst (detect_leap P s pp pb pc pu)) = E_base s"
  "E_core (fst (detect_leap P s pp pb pc pu)) = E_core s"
  "E_upper (fst (detect_leap P s pp pb pc pu)) = E_upper s"
  "E_direct (fst (detect_leap P s pp pb pc pu)) = E_direct s"
  by (simp_all add: detect_leap_def legacy_phase_transition_def Let_def)

lemma detect_leap_kappa:
  "kappa_physical (fst (detect_leap P s pp pb pc pu)) = kappa_physical s"
  "kappa_base (fst (detect_leap P s pp pb pc pu)) = kappa_base s"
  "kappa_core (fst (detect_leap P s pp pb pc pu)) = kappa_core s"
  "kappa_upper (fst (detect_leap P s pp pb pc pu)) = kappa_upper s"
  by (simp_all add: detect_leap_def legacy_phase_transition_def Let_def)

lemma step_kappa:
  "kappa_physical (fst (step self s pp pb pc pu Fd os rs dt))
     = kappa_physical (state_learned (params self) s pp pb pc pu Fd os rs dt)"
  "kappa_base (fst (step self s pp pb pc pu Fd os rs dt))
     = kappa_base (state_learned (params self) s pp pb pc pu Fd os rs dt)"
  "kappa_core (fst (step self s pp pb pc pu Fd os rs dt))
     = kappa_core (state_learned (params self) s pp pb pc pu Fd os rs dt)"
  "kappa_upper (fst (step self s pp pb pc pu Fd os rs dt))
     = kappa_upper (state_learned (params self) s pp pb pc pu Fd os rs dt)"
  by (simp_all add: step_def Let_def record_diagnostics_def clamp_energy_def
        update_energy_def record_coupling_def leap_phase_def detect_leap_kappa)

lemma step_energy_nonneg:
  "0 \<le> E_physical (fst (step self s pp pb pc pu Fd os rs dt))"
  "0 \<le> E_base (fst (step self s pp pb pc pu Fd os rs dt))"
  "0 \<le> E_core (fst (step self s pp pb pc pu Fd os rs dt))"
  "0 \<le> E_upper (fst (step self s pp pb pc pu Fd os rs dt))"
  "0 \<le> E_direct (fst (step self s pp pb pc pu Fd os rs dt))"
  by (simp_all add: step_def Let_def record_diagnostics_def clamp_energy_def)

lemma social_coupling_none: "social_coupling P st None rs = zero_coupling"
  by (simp add: social_coupling_def)

lemma leap_phase_energy:
  "E_physical (fst (leap_phase P s pp pb pc pu Fd os rs dt)) = E_physical s"
  "E_base (fst (leap_phase P s pp pb pc pu Fd os rs dt)) = E_base s"
  "E_core (fst (leap_phase P s pp pb pc pu Fd os rs dt)) = E_core s"
  "E_upper (fst (leap_phase P s pp pb pc pu Fd os rs dt)) = E_upper s"
  "E_direct (fst (leap_phase P s pp pb pc pu Fd os rs dt)) = E_direct s"
  by (simp_all add: leap_phase_def detect_leap_energy state_learned_energy)

lemma tick_values_fields:
  "c_physical2d (tick_values P st g) = fst g * E_physical st"
  "c_base2d (tick_values P st g) = fst (snd g) * E_base st"
  "c_core2d (tick_values P st g) = fst (snd (snd g)) * E_core st"
  "c_upper2d (tick_values P st g) = snd (snd (snd g)) * E_upper st"
  "c_d2physical (tick_values P st g) = gamma_d2physical P * E_direct st"
  "c_d2base (tick_values P st g) = gamma_d2base P * E_direct st"
  "c_d2core (tick_values P st g) = gamma_d2core P * E_direct st"
  "c_d2upper (tick_values P st g) = gamma_d2upper P * E_direct st"
  "decay_physical (tick_values P st g) = beta_physical P * E_physical st"
  "decay_base (tick_values P st g) = beta_base P * E_base st"
  "decay_core (tick_values P st g) = beta_core P * E_core st"
  "decay_upper (tick_values P st g) = beta_upper P * E_upper st"
  by (simp_all add: tick_values_def split_beta)

lemma step_conversions:
  "conversion_physical2d (fst (step self s pp pb pc pu Fd os rs dt))
     = fst (snd (leap_phase (params self) s pp pb pc pu Fd os rs dt)) * E_physical s"
  "conversion_base2d (fst (step self s pp pb pc pu Fd os rs dt))
     = fst (snd (snd (leap_phase (params self) s pp pb pc pu Fd os rs dt))) * E_base s"
  "conversion_core2d (fst (step self s pp pb pc pu Fd os rs dt))
     = fst (snd (snd (snd (leap_phase (params self) s pp pb pc pu Fd os rs dt)))) * E_core s"
  "conversion_upper2d (fst (step self s pp pb pc pu Fd os rs dt))
     = snd (snd (snd (snd (leap_phase (params self) s pp pb pc pu Fd os rs dt)))) * E_upper s"
  "conversion_d2physical (fst (step self s pp pb pc pu Fd os rs dt))
     = gamma_d2physical (params self) * E_direct s"
  "conversion_d2base (fst (step self s pp pb pc pu Fd os rs dt))
     = gamma_d2base (params self) * E_direct s"
  "conversion_d2core (fst (step self s pp pb pc pu Fd os rs dt))
     = gamma_d2core (params self) * E_direct s"
  "conversion_d2upper (fst (step self s pp pb pc pu Fd os rs dt))
     = gamma_d2upper (params self) * E_direct s"
  by (simp_all add: step_def Let_def record_diagnostics_def tick_values_fields leap_phase_energy)

lemma step_E_direct:
  "E_direct (fst (step self s pp pb pc pu Fd os rs dt))
     = max 0 (E_direct s + E_direct_flow (fst (step self s pp pb pc pu Fd os rs dt)) * dt)"
  by (simp add: step_def Let_def record_diagnostics_def clamp_energy_def update_energy_def
        record_coupling_def leap_phase_energy)

lemma step_E_direct_flow:
  "E_direct_flow (fst (step self s pp pb pc pu Fd os rs dt))
     = E_direct_production (params self) Fd
       + conversion_physical2d (fst (step self s pp pb pc pu Fd os rs dt))
       + conversion_base2d (fst (step self s pp pb pc pu Fd os rs dt))
       + conversion_core2d (fst (step self s pp pb pc pu Fd os rs dt))
       + conversion_upper2d (fst (step self s pp pb pc pu Fd os rs dt))
       - conversion_d2physical (fst (step self s pp pb pc pu Fd os rs dt))
       - conversion_d2base (fst (step self s pp pb pc pu Fd os rs dt))
       - conversion_d2core (fst (step self s pp pb pc pu Fd os rs dt))
       - conversion_d2upper (fst (step self s pp pb pc pu Fd os rs dt))"
  by (simp add: step_def Let_def record_diagnostics_def dE_direct_def)

lemma compute_dynamic_gamma_zero:
  "gamma_physical2d P = 0 \<Longrightarrow> fst (compute_dynamic_gamma P lr) = 0"
  "gamma_base2d P = 0 \<Longrightarrow> fst (snd (compute_dynamic_gamma P lr)) = 0"
  "gamma_core2d P = 0 \<Longrightarrow> fst (snd (snd (compute_dynamic_gamma P lr))) = 0"
  "gamma_upper2d P = 0 \<Longrightarrow> snd (snd (snd (compute_dynamic_gamma P lr))) = 0"
  by (simp_all add: compute_dynamic_gamma_def Let_def)

lemma legacy_gamma_zero:
  "gamma_physical2d P = 0 \<Longrightarrow> fst (snd (legacy_phase_transition P st)) = 0"
  "gamma_base2d P = 0 \<Longrightarrow> fst (snd (snd (legacy_phase_transition P st))) = 0"
  "gamma_core2d P = 0 \<Longrightarrow> fst (snd (snd (snd (legacy_phase_transition P st)))) = 0"
  "gamma_upper2d P = 0 \<Longrightarrow> snd (snd (snd (snd (legacy_phase_transition P st)))) = 0"
  by (simp_all add: legacy_phase_transition_def Let_def)

lemma leap_phase_gamma_zero:
  "gamma_physical2d P = 0 \<Longrightarrow> fst (snd (leap_phase P s pp pb pc pu Fd os rs dt)) = 0"
  "gamma_base2d P = 0 \<Longrightarrow> fst (snd (snd (leap_phase P s pp pb pc pu Fd os rs dt))) = 0"
  "gamma_core2d P = 0 \<Longrightarrow> fst (snd (snd (snd (leap_phase P s pp pb pc pu Fd os rs dt)))) = 0"
  "gamma_upper2d P = 0 \<Longrightarrow> snd (snd (snd (snd (leap_phase P s pp pb pc pu Fd os rs dt)))) = 0"
  by (simp_all add: leap_phase_def detect_leap_def Let_def compute_dynamic_gamma_zero legacy_gamma_zero)

lemma step_transfers:
  "transfer_upper2base (fst (step self s pp pb pc pu Fd os rs dt))
     = upper2base (interlayer_transfers (params self) s)"
  "transfer_upper2core (fst (step self s pp pb pc pu Fd os rs dt))
     = upper2core (interlayer_transfers (params self) s)"
  "transfer_base2upper (fst (step self s pp pb pc pu Fd os rs dt))
     = base2upper (interlayer_transfers (params self) s)"
  "transfer_base2core (fst (step self s pp pb pc pu Fd os rs dt))
     = base2core (interlayer_transfers (params self) s)"
  "transfer_core2base (fst (step self s pp pb pc pu Fd os rs dt))
     = core2base (interlayer_transfers (params self) s)"
  "transfer_core2upper (fst (step self s pp pb pc pu Fd os rs dt))
     = core2upper (interlayer_transfers (params self) s)"
  "transfer_physical2base (fst (step self s pp pb pc pu Fd os rs dt))
     = physical2base (interlayer_transfers (params self) s)"
  "transfer_physical2upper (fst (step self s pp pb pc pu Fd os rs dt))
     = physical2upper (interlayer_transfers (params self) s)"
  by (simp_all add: step_def Let_def record_diagnostics_def interlayer_transfers_def
        compute_interlayer_transfers_def zero_transfers_def leap_phase_energy)

lemma step_layer_flows:
  "E_physical_flow (fst (step self s pp pb pc pu Fd os rs dt))
     = E_physical_production (params self) (state_reacted s pp pb pc pu Fd)
       - conversion_physical2d (fst (step self s pp pb pc pu Fd os rs dt))
       + conversion_d2physical (fst (step self s pp pb pc pu Fd os rs dt))
       - beta_physical (params self) * E_physical s
       + social_coupling_physical (fst (step self s pp pb pc pu Fd os rs dt))
       + (- transfer_physical2base (fst (step self s pp pb pc pu Fd os rs dt))
          - transfer_physical2upper (fst (step self s pp pb pc pu Fd os rs dt)))"
  "E_base_flow (fst (step self s pp pb pc pu Fd os rs dt))
     = E_base_production (params self) (state_reacted s pp pb pc pu Fd)
       - conversion_base2d (fst (step self s pp pb pc pu Fd os rs dt))
       + conversion_d2base (fst (step self s pp pb pc pu Fd os rs dt))
       - beta_base (params self) * E_base s
       + social_coupling_base (fst (step self s pp pb pc pu Fd os rs dt))
       + (transfer_upper2base (fst (step self s pp pb pc pu Fd os rs dt))
          + transfer_core2base (fst (step self s pp pb pc pu Fd os rs dt))
          + transfer_physical2base (fst (step self s pp pb pc pu Fd os rs dt))
          - transfer_base2upper (fst (step self s pp pb pc pu Fd os rs dt))
          - transfer_base2core (fst (step self s pp pb pc pu Fd os rs dt)))"
  "E_core_flow (fst (step self s pp pb pc pu Fd os rs dt))
     = E_core_production (params self) (state_reacted s pp pb pc pu Fd)
       - conversion_core2d (fst (step self s pp pb pc pu Fd os rs dt))
       + conversion_d2core (fst (step self s pp pb pc pu Fd os rs dt))
       - beta_core (params self) * E_core s
       + social_coupling_core (fst (step self s pp pb pc pu Fd os rs dt))
       + (transfer_upper2core (fst (step self s pp pb pc pu Fd os rs dt))
          + transfer_base2core (fst (step self s pp pb pc pu Fd os rs dt))
          - transfer_core2base (fst (step self s pp pb pc pu Fd os rs dt))
          - transfer_core2upper (fst (step self s pp pb pc pu Fd os rs dt)))"
  "E_upper_flow (fst (step self s pp pb pc pu Fd os rs dt))
     = E_upper_production (params self) (state_reacted s pp pb pc pu Fd)
       - conversion_upper2d (fst (step self s pp pb pc pu Fd os rs dt))
       + conversion_d2upper (fst (step self s pp pb pc pu Fd os rs dt))
       - beta_upper (params self) * E_upper s
       + social_coupling_upper (fst (step self s pp pb pc pu Fd os rs dt))
       + (transfer_base2upper (fst (step self s pp pb pc pu Fd os rs dt))
          + transfer_core2upper (fst (step self s pp pb pc pu Fd os rs dt))
          + transfer_physical2upper (fst (step self s pp pb pc pu Fd os rs dt))
          - transfer_upper2base (fst (step self s pp pb pc pu Fd os rs dt))
          - transfer_upper2core (fst (step self s pp pb pc pu Fd os rs dt)))"
  by (simp_all add: step_def Let_def record_diagnostics_def clamp_energy_def update_energy_def
        record_coupling_def dE_physical_def dE_base_def dE_core_def dE_upper_def
        tick_values_fields leap_phase_energy)

lemma step_layer_energy:
  "E_physical (fst (step self s pp pb pc pu Fd os rs dt))
     = max 0 (E_physical s + E_physical_flow (fst (step self s pp pb pc pu Fd os rs dt)) * dt)"
  "E_base (fst (step self s pp pb pc pu Fd os rs dt))
     = max 0 (E_base s + E_base_flow (fst (step self s pp pb pc pu Fd os rs dt)) * dt)"
  "E_core (fst (step self s pp pb pc pu Fd os rs dt))
     = max 0 (E_core s + E_core_flow (fst (step self s pp pb pc pu Fd os rs dt)) * dt)"
  "E_upper (fst (step self s pp pb pc pu Fd os rs dt))
     = max 0 (E_upper s + E_upper_flow (fst (step self s pp pb pc pu Fd os rs dt)) * dt)"
  by (simp_all add: step_def Let_def record_diagnostics_def clamp_energy_def update_energy_def
        record_coupling_def leap_phase_energy)

lemma leap_phase_legacy:
  "\<not> use_integrated_leap_detection P \<Longrightarrow>
     leap_phase P s pp pb pc pu Fd os rs dt
       = legacy_phase_transition P (state_learned P s pp pb pc pu Fd os rs dt)"
  by (simp add: leap_phase_def detect_leap_def)

lemma step_labels:
  "dominant_leap_layer (fst (step self s pp pb pc pu Fd os rs dt))
     = dominant_leap_layer (fst (leap_phase (params self) s pp pb pc pu Fd os rs dt))"
  "leap_type (fst (step self s pp pb pc pu Fd os rs dt))
     = leap_type (fst (leap_phase (params self) s pp pb pc pu Fd os rs dt))"
  "is_critical_physical (fst (step self s pp pb pc pu Fd os rs dt))
     = is_critical_physical (fst (leap_phase (params self) s pp pb pc pu Fd os rs dt))"
  "is_critical_base (fst (step self s pp pb pc pu Fd os rs dt))
     = is_critical_base (fst (leap_phase (params self) s pp pb pc pu Fd os rs dt))"
  "is_critical_core (fst (step self s pp pb pc pu Fd os rs dt))
     = is_critical_core (fst (leap_phase (params self) s pp pb pc pu Fd os rs dt))"
  "is_critical_upper (fst (step self s pp pb pc pu Fd os rs dt))
     = is_critical_upper (fst (leap_phase (params self) s pp pb pc pu Fd os rs dt))"
  by (simp_all add: step_def Let_def record_diagnostics_def clamp_energy_def update_energy_def
        record_coupling_def)

lemma legacy_labels:
  "dominant_leap_layer (fst (legacy_phase_transition P st)) = ''NONE''"
  "leap_type (fst (legacy_phase_transition P st)) = ''NO_LEAP''"
  "is_critical_base (fst (legacy_phase_transition P st))
     = (enable_phase_transition P \<and> E_base st < Theta_base P)"
  "fst (snd (snd (legacy_phase_transition P st)))
     = (if enable_phase_transition P \<and> E_base st < Theta_base P
        then gamma_base2d P * phase_transition_multiplier_base P else gamma_base2d P)"
  by (simp_all add: legacy_phase_transition_def Let_def)

lemma step_social_none:
  "social_coupling_base (fst (step self s pp pb pc pu Fd None rs dt)) = 0"
  by (simp add: step_def Let_def record_diagnostics_def clamp_energy_def update_energy_def
        record_coupling_def social_coupling_none zero_coupling_def)

lemma step_engine:
  "snd (step self s pp pb pc pu Fd os rs dt)
     = update_statistics self
         (tick_values (params self)
            (fst (leap_phase (params self) s pp pb pc pu Fd os rs dt))
            (snd (leap_phase (params self) s pp pb pc pu Fd os rs dt))) dt"
  by (simp add: step_def Let_def)

lemma step_state_independent_of_statistics:
  "params self = params self' \<Longrightarrow>
     fst (step self s pp pb pc pu Fd os rs dt) = fst (step self' s pp pb pc pu Fd os rs dt)"
  by (simp add: step_def Let_def)

lemma coupling_pair_neutral:
  "relation \<le> cooperation_threshold P \<Longrightarrow> - cooperation_threshold P \<le> relation \<Longrightarrow>
     coupling_pair P state c (other, relation) = c"
  by (simp add: coupling_pair_def Let_def)

lemma foldl_skip_neutral:
  assumes "length os1 = length rs1"
    and "relation \<le> cooperation_threshold P" and "- cooperation_threshold P \<le> relation"
  shows "foldl (coupling_pair P state) c (zip (os1 @ other # os2) (rs1 @ relation # rs2))
       = foldl (coupling_pair P state) c (zip (os1 @ os2) (rs1 @ rs2))"
  using assms by (simp add: coupling_pair_neutral)

lemma first_maximum_physical:
  "(case (if cp then [(''PHYSICAL'', wp)] else []) @ (if cb then [(''BASE'', wb)] else [])
       @ (if cc then [(''CORE'', wc)] else []) @ (if cu then [(''UPPER'', wu)] else [])
    of [] \<Rightarrow> ''NONE'' | c # cs \<Rightarrow> fst (py_max_from c cs)) = ''PHYSICAL''
    \<longleftrightarrow> cp \<and> (cb \<longrightarrow> wb \<le> wp) \<and> (cc \<longrightarrow> wc \<le> wp) \<and> (cu \<longrightarrow> wu \<le> wp)"
  by (cases cp; cases cb; cases cc; cases cu) auto

lemma first_maximum_base:
  "(case (if cp then [(''PHYSICAL'', wp)] else []) @ (if cb then [(''BASE'', wb)] else [])
       @ (if cc then [(''CORE'', wc)] else []) @ (if cu then [(''UPPER'', wu)] else [])
    of [] \<Rightarrow> ''NONE'' | c # cs \<Rightarrow> fst (py_max_from c cs)) = ''BASE''
    \<longleftrightarrow> cb \<and> (cp \<longrightarrow> wp < wb) \<and> (cc \<longrightarrow> wc \<le> wb) \<and> (cu \<longrightarrow> wu \<le> wb)"
  by (cases cp; cases cb; cases cc; cases cu) auto

lemma first_maximum_core:
  "(case (if cp then [(''PHYSICAL'', wp)] else []) @ (if cb then [(''BASE'', wb)] else [])
       @ (if cc then [(''CORE'', wc)] else []) @ (if cu then [(''UPPER'', wu)] else [])
    of [] \<Rightarrow> ''NONE'' | c # cs \<Rightarrow> fst (py_max_from c cs)) = ''CORE''
    \<longleftrightarrow> cc \<and> (cp \<longrightarrow> wp < wc) \<and> (cb \<longrightarrow> wb < wc) \<and> (cu \<longrightarrow> wu \<le> wc)"
  by (cases cp; cases cb; cases cc; cases cu) auto

lemma first_maximum_upper:
  "(case (if cp then [(''PHYSICAL'', wp)] else []) @ (if cb then [(''BASE'', wb)] else [])
       @ (if cc then [(''CORE'', wc)] else []) @ (if cu then [(''UPPER'', wu)] else [])
    of [] \<Rightarrow> ''NONE'' | c # cs \<Rightarrow> fst (py_max_from c cs)) = ''UPPER''
    \<longleftrightarrow> cu \<and> (cp \<longrightarrow> wp < wu) \<and> (cb \<longrightarrow> wb < wu) \<and> (cc \<longrightarrow> wc < wu)"
  by (cases cp; cases cb; cases cc; cases cu) auto

lemma first_maximum_member:
  "cp \<or> cb \<or> cc \<or> cu \<Longrightarrow>
   (case (if cp then [(''PHYSICAL'', wp)] else []) @ (if cb then [(''BASE'', wb)] else [])
       @ (if cc then [(''CORE'', wc)] else []) @ (if cu then [(''UPPER'', wu)] else [])
    of [] \<Rightarrow> ''NONE'' | c # cs \<Rightarrow> fst (py_max_from c cs))
     \<in> {''PHYSICAL'', ''BASE'', ''CORE'', ''UPPER''}"
  by (cases cp; cases cb; cases cc; cases cu) auto

lemma dominant_layer_as_case:
  "lr_dominant_layer (integrated_leap_detection P s sp)
     = (case critical_layers P s sp of [] \<Rightarrow> ''NONE'' | c # cs \<Rightarrow> fst (py_max_from c cs))"
  by (simp add: integrated_leap_detection_def Let_def split: list.split)

lemma leap_type_as_case:
  "lr_leap_type (integrated_leap_detection P s sp)
     = (case critical_layers P s sp of [] \<Rightarrow> ''NO_LEAP''
        | c # cs \<Rightarrow> ''LEAP_'' @ lr_dominant_layer (integrated_leap_detection P s sp))"
  by (simp add: integrated_leap_detection_def Let_def split: list.split)

lemma critical_layers_empty:
  "critical_layers P s sp = [] \<longleftrightarrow>
     \<not> E_physical s < theta_physical_dynamic P s sp \<and> \<not> E_base s < theta_base_dynamic P s sp
     \<and> \<not> E_core s < theta_core_dynamic P s sp \<and> \<not> E_upper s < theta_upper_dynamic P s sp"
  by (simp add: critical_layers_def)

lemma critical_flags:
  "lr_is_critical_physical (integrated_leap_detection P s sp)
     = (E_physical s < theta_physical_dynamic P s sp)"
  "lr_is_critical_base (integrated_leap_detection P s sp)
     = (E_base s < theta_base_dynamic P s sp)"
  "lr_is_critical_core (integrated_leap_detection P s sp)
     = (E_core s < theta_core_dynamic P s sp)"
  "lr_is_critical_upper (integrated_leap_detection P s sp)
     = (E_upper s < theta_upper_dynamic P s sp)"
  by (auto simp add: integrated_leap_detection_def critical_layers_def Let_def split: list.split if_splits)

lemma hazard_pos: "0 < h0 \<Longrightarrow> 0 < hazard h0 g Th E"
  by (simp add: hazard_def Let_def)

lemma hazard_at_threshold: "hazard h0 g Th Th = h0"
  by (simp add: hazard_def)

lemma hazard_below: "0 < h0 \<Longrightarrow> 0 < g \<Longrightarrow> 0 < eps \<Longrightarrow> h0 < hazard h0 g Th (Th - eps)"
  by (simp add: hazard_def Let_def)

lemma one_minus_exp_bounds:
  fixes x :: real
  assumes "0 < x"
  shows "x / (1 + x) \<le> 1 - exp (- x)" and "1 - exp (- x) \<le> x" and "0 < 1 - exp (- x)"
proof -
  have "1 + x \<le> exp x" by (rule exp_ge_add_one_self)
  then have "exp (- x) \<le> 1 / (1 + x)"
    using assms by (simp add: exp_minus field_simps)
  moreover have "1 - 1 / (1 + x) = x / (1 + x)" using assms by (simp add: field_simps)
  ultimately show "x / (1 + x) \<le> 1 - exp (- x)" by linarith
  have "1 + (- x) \<le> exp (- x)" by (rule exp_ge_add_one_self)
  then show "1 - exp (- x) \<le> x" by linarith
  show "0 < 1 - exp (- x)" using assms by simp
qed

section \<open>Invariants of the state\<close>

text \<open>
  C1. For every engine, state, pressure vectors, optional direct force, optional lists
  of other agents and relationships, and every \<open>dt\<close> (positive or not), the state
  returned by \<open>step\<close> has all five energies non-negative and each of the four inertias
  at or above its configured floor \<open>kappa_min\<close>.
\<close>

theorem step_energy_inertia_invariant:
  "0 \<le> E_physical (fst (step self s pp pb pc pu Fd os rs dt))
   \<and> 0 \<le> E_base (fst (step self s pp pb pc pu Fd os rs dt))
   \<and> 0 \<le> E_core (fst (step self s pp pb pc pu Fd os rs dt))
   \<and> 0 \<le> E_upper (fst (step self s pp pb pc pu Fd os rs dt))
   \<and> 0 \<le> E_direct (fst (step self s pp pb pc pu Fd os rs dt))
   \<and> kappa_min_physical (params self) \<le> kappa_physical (fst (step self s pp pb pc pu Fd os rs dt))
   \<and> kappa_min_base (params self) \<le> kappa_base (fst (step self s pp pb pc pu Fd os rs dt))
   \<and> kappa_min_core (params self) \<le> kappa_core (fst (step self s pp pb pc pu Fd os rs dt))
   \<and> kappa_min_upper (params self) \<le> kappa_upper (fst (step self s pp pb pc pu Fd os rs dt))"
  by (simp add: step_energy_nonneg step_kappa state_learned_kappa)

text \<open>The invariant at a concrete call: default engine, a state with negative base
  energy and an inertia below its floor, unit pressure on the base layer, one cooperating
  neighbour, \<open>dt = 1\<close>.\<close>

theorem step_energy_inertia_invariant_witness:
  "0 \<le> E_base (fst (step (new_engine default_params)
           (default_state \<lparr> E_base := - 5, kappa_base := 1 / 10 \<rparr>)
           zeros3 [1, 0, 0] zeros3 zeros3 None (Some [default_state]) (Some [9 / 10]) 1))
   \<and> kappa_min_base (params (new_engine default_params))
       \<le> kappa_base (fst (step (new_engine default_params)
           (default_state \<lparr> E_base := - 5, kappa_base := 1 / 10 \<rparr>)
           zeros3 [1, 0, 0] zeros3 zeros3 None (Some [default_state]) (Some [9 / 10]) 1))"
  using step_energy_inertia_invariant [of "new_engine default_params"
      "default_state \<lparr> E_base := - 5, kappa_base := 1 / 10 \<rparr>"
      zeros3 "[1, 0, 0]" zeros3 zeros3 None "Some [default_state]" "Some [9 / 10]" 1]
  by simp

section \<open>Energy production\<close>

text \<open>
  C2, as amended. In every call to \<open>step\<close> the reaction of a layer is its inertia (as it
  is on entry) times its pressure, and the production of the layer is
  \<open>alpha * |pressure - reaction|\<close>, the norm of the residual vector, which is
  \<open>alpha * |1 - inertia| * |pressure|\<close>. It agrees with the specification's
  \<open>alpha * max(0, |pressure| - |reaction|)\<close> whenever the inertia lies between 0 and 1.
\<close>

theorem production_is_residual_norm:
  "E_physical_production P (state_reacted s pp pb pc pu Fd)
     = alpha_physical P * (\<bar>1 - kappa_physical s\<bar> * norm_v pp)
   \<and> E_base_production P (state_reacted s pp pb pc pu Fd)
     = alpha_base P * (\<bar>1 - kappa_base s\<bar> * norm_v pb)
   \<and> E_core_production P (state_reacted s pp pb pc pu Fd)
     = alpha_core P * (\<bar>1 - kappa_core s\<bar> * norm_v pc)
   \<and> E_upper_production P (state_reacted s pp pb pc pu Fd)
     = alpha_upper P * (\<bar>1 - kappa_upper s\<bar> * norm_v pu)
   \<and> (0 \<le> kappa_physical s \<and> kappa_physical s \<le> 1 \<longrightarrow>
        E_physical_production P (state_reacted s pp pb pc pu Fd)
          = spec_production (alpha_physical P) pp (scale_v (kappa_physical s) pp))
   \<and> (0 \<le> kappa_base s \<and> kappa_base s \<le> 1 \<longrightarrow>
        E_base_production P (state_reacted s pp pb pc pu Fd)
          = spec_production (alpha_base P) pb (scale_v (kappa_base s) pb))
   \<and> (0 \<le> kappa_core s \<and> kappa_core s \<le> 1 \<longrightarrow>
        E_core_production P (state_reacted s pp pb pc pu Fd)
          = spec_production (alpha_core P) pc (scale_v (kappa_core s) pc))
   \<and> (0 \<le> kappa_upper s \<and> kappa_upper s \<le> 1 \<longrightarrow>
        E_upper_production P (state_reacted s pp pb pc pu Fd)
          = spec_production (alpha_upper P) pu (scale_v (kappa_upper s) pu))"
proof -
  have agree: "spec_production a v (scale_v k v) = a * (\<bar>1 - k\<bar> * norm_v v)"
    if k: "0 \<le> k" "k \<le> 1" for a k v
  proof -
    have "norm_v v - k * norm_v v = (1 - k) * norm_v v" by (simp add: algebra_simps)
    moreover have "0 \<le> (1 - k) * norm_v v" using k norm_v_nonneg by simp
    ultimately show ?thesis using k by (simp add: spec_production_def norm_v_scale max_def)
  qed
  show ?thesis
    by (simp add: E_physical_production_def E_base_production_def E_core_production_def
          E_upper_production_def state_reacted_fields norm_v_residual agree)
qed

text \<open>The amended statement at a concrete call: base inertia one half, unit base
  pressure; the production is one half by either formula.\<close>

theorem production_is_residual_norm_witness:
  "E_base_production default_params
      (state_reacted (default_state \<lparr> kappa_base := 1 / 2 \<rparr>) zeros3 [1, 0, 0] zeros3 zeros3 None)
     = 1 / 2
   \<and> spec_production (alpha_base default_params) [1, 0, 0] (scale_v (1 / 2) [1, 0, 0]) = 1 / 2"
  using production_is_residual_norm [of default_params "default_state \<lparr> kappa_base := 1 / 2 \<rparr>"
      zeros3 "[1, 0, 0]" zeros3 zeros3 None]
  by (simp add: default_state_def default_params_def norm_v_unit)

text \<open>
  C2 as stated fails: with base inertia 2 and unit base pressure the reaction magnitude
  (2) is at least the pressure magnitude (1), the claimed production is 0, and the code
  produces 1.
\<close>

theorem production_counterexample:
  "E_base_production default_params
       (state_reacted (default_state \<lparr> kappa_base := 2 \<rparr>) zeros3 [1, 0, 0] zeros3 zeros3 None)
     \<noteq> spec_production (alpha_base default_params)
         (p_base (state_reacted (default_state \<lparr> kappa_base := 2 \<rparr>)
                     zeros3 [1, 0, 0] zeros3 zeros3 None))
         (j_base (state_reacted (default_state \<lparr> kappa_base := 2 \<rparr>)
                     zeros3 [1, 0, 0] zeros3 zeros3 None))
   \<and> norm_v (j_base (state_reacted (default_state \<lparr> kappa_base := 2 \<rparr>)
                     zeros3 [1, 0, 0] zeros3 zeros3 None))
     \<ge> norm_v (p_base (state_reacted (default_state \<lparr> kappa_base := 2 \<rparr>)
                     zeros3 [1, 0, 0] zeros3 zeros3 None))
   \<and> E_base_production default_params
       (state_reacted (default_state \<lparr> kappa_base := 2 \<rparr>) zeros3 [1, 0, 0] zeros3 zeros3 None)
     \<noteq> 0"
  by (simp add: E_base_production_def spec_production_def state_reacted_fields norm_v_residual
        norm_v_scale norm_v_unit default_params_def)

section \<open>Inertia learning\<close>

text \<open>
  C3, as amended. In every call to \<open>step\<close> the inertia of a layer is first increased by
  \<open>eta * |pressure| * dt\<close>, then multiplied by \<open>1 - lambda * dt\<close>, then increased by the
  inertia part of the social coupling times \<open>dt\<close>, then clamped to its floor
  \<open>kappa_min\<close>. With zero pressure and no other agents the new inertia is
  \<open>max(kappa_min, inertia * (1 - lambda * dt))\<close>: the decay is multiplicative, towards
  zero, and only the clamp stops it at the floor.
\<close>

theorem inertia_update_learn_then_decay:
  "kappa_physical (fst (step self s pp pb pc pu Fd os rs dt))
     = max (kappa_min_physical (params self))
         ((kappa_physical s + eta_physical (params self) * norm_v pp * dt)
            * (1 - lambda_physical (params self) * dt)
          + physical_kappa (social_coupling (params self)
              (state_forgotten (params self) s pp pb pc pu Fd dt) os rs) * dt)
   \<and> kappa_base (fst (step self s pp pb pc pu Fd os rs dt))
     = max (kappa_min_base (params self))
         ((kappa_base s + eta_base (params self) * norm_v pb * dt)
            * (1 - lambda_base (params self) * dt)
          + base_kappa (social_coupling (params self)
              (state_forgotten (params self) s pp pb pc pu Fd dt) os rs) * dt)
   \<and> kappa_core (fst (step self s pp pb pc pu Fd os rs dt))
     = max (kappa_min_core (params self))
         ((kappa_core s + eta_core (params self) * norm_v pc * dt)
            * (1 - lambda_core (params self) * dt)
          + core_kappa (social_coupling (params self)
              (state_forgotten (params self) s pp pb pc pu Fd dt) os rs) * dt)
   \<and> kappa_upper (fst (step self s pp pb pc pu Fd os rs dt))
     = max (kappa_min_upper (params self))
         ((kappa_upper s + eta_upper (params self) * norm_v pu * dt)
            * (1 - lambda_upper (params self) * dt)
          + upper_kappa (social_coupling (params self)
              (state_forgotten (params self) s pp pb pc pu Fd dt) os rs) * dt)
   \<and> (norm_v pp = 0 \<and> norm_v pb = 0 \<and> norm_v pc = 0 \<and> norm_v pu = 0 \<and> os = None \<longrightarrow>
        kappa_physical (fst (step self s pp pb pc pu Fd os rs dt))
          = max (kappa_min_physical (params self))
              (kappa_physical s * (1 - lambda_physical (params self) * dt))
      \<and> kappa_base (fst (step self s pp pb pc pu Fd os rs dt))
          = max (kappa_min_base (params self))
              (kappa_base s * (1 - lambda_base (params self) * dt))
      \<and> kappa_core (fst (step self s pp pb pc pu Fd os rs dt))
          = max (kappa_min_core (params self))
              (kappa_core s * (1 - lambda_core (params self) * dt))
      \<and> kappa_upper (fst (step self s pp pb pc pu Fd os rs dt))
          = max (kappa_min_upper (params self))
              (kappa_upper s * (1 - lambda_upper (params self) * dt)))"
  by (simp add: step_kappa state_learned_kappa social_coupling_none zero_coupling_def)

text \<open>The amended statement at a concrete call: default parameters, base inertia 2, zero
  pressure, no other agents, \<open>dt = 1\<close>; the new base inertia is 2 * 0.95 = 1.9.\<close>

theorem inertia_update_learn_then_decay_witness:
  "norm_v zeros3 = 0
   \<and> kappa_base (fst (step (new_engine default_params) (default_state \<lparr> kappa_base := 2 \<rparr>)
          zeros3 zeros3 zeros3 zeros3 None None None 1)) = 19 / 10"
  using inertia_update_learn_then_decay [of "new_engine default_params"
      "default_state \<lparr> kappa_base := 2 \<rparr>" zeros3 zeros3 zeros3 zeros3 None None None 1]
  by (simp add: norm_v_zeros3 new_engine_def default_params_def default_state_def)

text \<open>
  C3 as stated fails: at the same call the specification's formula gives
  2 - 0.05 * (2 - 0.8) = 1.94, the code gives 1.9.
\<close>

theorem inertia_update_counterexample:
  "kappa_base (fst (step (new_engine default_params) (default_state \<lparr> kappa_base := 2 \<rparr>)
          zeros3 zeros3 zeros3 zeros3 None None None 1))
     \<noteq> spec_kappa_update (eta_base default_params) (rho_base default_params)
         (lambda_base default_params) (kappa_min_base default_params) 2 zeros3
         (scale_v 2 zeros3) 1"
  by (simp add: spec_kappa_update_def norm_v_scale step_kappa state_learned_kappa
        social_coupling_none zero_coupling_def norm_v_zeros3 new_engine_def
        default_params_def default_state_def)

section \<open>The direct (action) energy\<close>

text \<open>
  C10. In every call to \<open>step\<close> the change of \<open>E_direct\<close> before the clamp is \<open>dt\<close> times
  the direct production (\<open>alpha_d * |F_direct|\<close>, zero when \<open>F_direct\<close> is absent) plus the
  four layer-to-direct conversions minus the four direct-to-layer conversions
  (\<open>gamma_d2layer * E_direct\<close>), and nothing else: no decay, no interlayer transfer and no
  social coupling term enters. Hence with \<open>F_direct\<close> absent and all eight conversion
  coefficients zero, the new \<open>E_direct\<close> is the old one clamped at zero.
\<close>

theorem direct_energy_balance:
  "E_direct (fst (step self s pp pb pc pu Fd os rs dt))
     = max 0 (E_direct s
         + ((case Fd of Some F \<Rightarrow> alpha_d (params self) * norm_v F | None \<Rightarrow> 0)
            + conversion_physical2d (fst (step self s pp pb pc pu Fd os rs dt))
            + conversion_base2d (fst (step self s pp pb pc pu Fd os rs dt))
            + conversion_core2d (fst (step self s pp pb pc pu Fd os rs dt))
            + conversion_upper2d (fst (step self s pp pb pc pu Fd os rs dt))
            - gamma_d2physical (params self) * E_direct s
            - gamma_d2base (params self) * E_direct s
            - gamma_d2core (params self) * E_direct s
            - gamma_d2upper (params self) * E_direct s) * dt)
   \<and> (Fd = None
        \<and> gamma_physical2d (params self) = 0 \<and> gamma_base2d (params self) = 0
        \<and> gamma_core2d (params self) = 0 \<and> gamma_upper2d (params self) = 0
        \<and> gamma_d2physical (params self) = 0 \<and> gamma_d2base (params self) = 0
        \<and> gamma_d2core (params self) = 0 \<and> gamma_d2upper (params self) = 0
      \<longrightarrow> E_direct (fst (step self s pp pb pc pu Fd os rs dt)) = max 0 (E_direct s))"
proof -
  have flow: "E_direct_flow (fst (step self s pp pb pc pu Fd os rs dt))
     = (case Fd of Some F \<Rightarrow> alpha_d (params self) * norm_v F | None \<Rightarrow> 0)
            + conversion_physical2d (fst (step self s pp pb pc pu Fd os rs dt))
            + conversion_base2d (fst (step self s pp pb pc pu Fd os rs dt))
            + conversion_core2d (fst (step self s pp pb pc pu Fd os rs dt))
            + conversion_upper2d (fst (step self s pp pb pc pu Fd os rs dt))
            - gamma_d2physical (params self) * E_direct s
            - gamma_d2base (params self) * E_direct s
            - gamma_d2core (params self) * E_direct s
            - gamma_d2upper (params self) * E_direct s"
    by (simp add: step_E_direct_flow [of self s pp pb pc pu Fd os rs dt]
          step_conversions(5-8) E_direct_production_def)
  have first: "E_direct (fst (step self s pp pb pc pu Fd os rs dt))
     = max 0 (E_direct s + E_direct_flow (fst (step self s pp pb pc pu Fd os rs dt)) * dt)"
    by (rule step_E_direct)
  have zero: "E_direct_flow (fst (step self s pp pb pc pu Fd os rs dt)) = 0"
    if "Fd = None" "gamma_physical2d (params self) = 0" "gamma_base2d (params self) = 0"
       "gamma_core2d (params self) = 0" "gamma_upper2d (params self) = 0"
       "gamma_d2physical (params self) = 0" "gamma_d2base (params self) = 0"
       "gamma_d2core (params self) = 0" "gamma_d2upper (params self) = 0"
    unfolding flow using that by (simp add: step_conversions leap_phase_gamma_zero)
  show ?thesis
  proof (intro conjI impI)
    show "E_direct (fst (step self s pp pb pc pu Fd os rs dt))
     = max 0 (E_direct s
         + ((case Fd of Some F \<Rightarrow> alpha_d (params self) * norm_v F | None \<Rightarrow> 0)
            + conversion_physical2d (fst (step self s pp pb pc pu Fd os rs dt))
            + conversion_base2d (fst (step self s pp pb pc pu Fd os rs dt))
            + conversion_core2d (fst (step self s pp pb pc pu Fd os rs dt))
            + conversion_upper2d (fst (step self s pp pb pc pu Fd os rs dt))
            - gamma_d2physical (params self) * E_direct s
            - gamma_d2base (params self) * E_direct s
            - gamma_d2core (params self) * E_direct s
            - gamma_d2upper (params self) * E_direct s) * dt)"
      unfolding flow [symmetric] by (rule first)
  next
    assume "Fd = None
        \<and> gamma_physical2d (params self) = 0 \<and> gamma_base2d (params self) = 0
        \<and> gamma_core2d (params self) = 0 \<and> gamma_upper2d (params self) = 0
        \<and> gamma_d2physical (params self) = 0 \<and> gamma_d2base (params self) = 0
        \<and> gamma_d2core (params self) = 0 \<and> gamma_d2upper (params self) = 0"
    then have "E_direct_flow (fst (step self s pp pb pc pu Fd os rs dt)) = 0"
      using zero by blast
    with first show "E_direct (fst (step self s pp pb pc pu Fd os rs dt)) = max 0 (E_direct s)"
      by simp
  qed
qed


text \<open>C10 at a concrete call: the eight conversion coefficients set to zero, no direct
  force, \<open>E_direct = 7\<close> on entry and on exit.\<close>

theorem direct_energy_balance_witness:
  "E_direct (fst (step
      (new_engine (default_params \<lparr> gamma_physical2d := 0, gamma_d2physical := 0,
         gamma_base2d := 0, gamma_core2d := 0, gamma_upper2d := 0,
         gamma_d2base := 0, gamma_d2core := 0, gamma_d2upper := 0 \<rparr>))
      (default_state \<lparr> E_direct := 7 \<rparr>)
      [1, 0, 0] zeros3 zeros3 zeros3 None None None 1)) = 7"
  using direct_energy_balance [of
      "new_engine (default_params \<lparr> gamma_physical2d := 0, gamma_d2physical := 0,
         gamma_base2d := 0, gamma_core2d := 0, gamma_upper2d := 0,
         gamma_d2base := 0, gamma_d2core := 0, gamma_d2upper := 0 \<rparr>)"
      "default_state \<lparr> E_direct := 7 \<rparr>" "[1, 0, 0]" zeros3 zeros3 zeros3 None None None 1]
  by (simp add: new_engine_def default_state_def)

section \<open>Interlayer transfer\<close>

text \<open>
  C5. In every call to \<open>step\<close> the rate of each layer is its own production, conversion,
  decay and social coupling terms plus its interlayer transfers, where each of the eight
  directed transfers enters the rate of its destination with a plus sign and the rate of
  its source with a minus sign; so the four layer rates add up to the sum of the
  non-transfer terms alone: the transfer contributions cancel exactly (before the clamp
  at zero), whatever production, decay and conversion are. With interlayer transfer
  enabled each transfer is \<open>gamma_pair * E_source * interlayer_transfer_strength\<close>, with
  the source energy as it is on entry to \<open>step\<close>.
\<close>

theorem interlayer_transfer_conservation:
  "E_physical_flow (fst (step self s pp pb pc pu Fd os rs dt))
     = E_physical_production (params self) (state_reacted s pp pb pc pu Fd)
       - conversion_physical2d (fst (step self s pp pb pc pu Fd os rs dt))
       + conversion_d2physical (fst (step self s pp pb pc pu Fd os rs dt))
       - beta_physical (params self) * E_physical s
       + social_coupling_physical (fst (step self s pp pb pc pu Fd os rs dt))
       + (- transfer_physical2base (fst (step self s pp pb pc pu Fd os rs dt))
          - transfer_physical2upper (fst (step self s pp pb pc pu Fd os rs dt)))
   \<and> E_base_flow (fst (step self s pp pb pc pu Fd os rs dt))
     = E_base_production (params self) (state_reacted s pp pb pc pu Fd)
       - conversion_base2d (fst (step self s pp pb pc pu Fd os rs dt))
       + conversion_d2base (fst (step self s pp pb pc pu Fd os rs dt))
       - beta_base (params self) * E_base s
       + social_coupling_base (fst (step self s pp pb pc pu Fd os rs dt))
       + (transfer_upper2base (fst (step self s pp pb pc pu Fd os rs dt))
          + transfer_core2base (fst (step self s pp pb pc pu Fd os rs dt))
          + transfer_physical2base (fst (step self s pp pb pc pu Fd os rs dt))
          - transfer_base2upper (fst (step self s pp pb pc pu Fd os rs dt))
          - transfer_base2core (fst (step self s pp pb pc pu Fd os rs dt)))
   \<and> E_core_flow (fst (step self s pp pb pc pu Fd os rs dt))
     = E_core_production (params self) (state_reacted s pp pb pc pu Fd)
       - conversion_core2d (fst (step self s pp pb pc pu Fd os rs dt))
       + conversion_d2core (fst (step self s pp pb pc pu Fd os rs dt))
       - beta_core (params self) * E_core s
       + social_coupling_core (fst (step self s pp pb pc pu Fd os rs dt))
       + (transfer_upper2core (fst (step self s pp pb pc pu Fd os rs dt))
          + transfer_base2core (fst (step self s pp pb pc pu Fd os rs dt))
          - transfer_core2base (fst (step self s pp pb pc pu Fd os rs dt))
          - transfer_core2upper (fst (step self s pp pb pc pu Fd os rs dt)))
   \<and> E_upper_flow (fst (step self s pp pb pc pu Fd os rs dt))
     = E_upper_production (params self) (state_reacted s pp pb pc pu Fd)
       - conversion_upper2d (fst (step self s pp pb pc pu Fd os rs dt))
       + conversion_d2upper (fst (step self s pp pb pc pu Fd os rs dt))
       - beta_upper (params self) * E_upper s
       + social_coupling_upper (fst (step self s pp pb pc pu Fd os rs dt))
       + (transfer_base2upper (fst (step self s pp pb pc pu Fd os rs dt))
          + transfer_core2upper (fst (step self s pp pb pc pu Fd os rs dt))
          + transfer_physical2upper (fst (step self s pp pb pc pu Fd os rs dt))
          - transfer_upper2base (fst (step self s pp pb pc pu Fd os rs dt))
          - transfer_upper2core (fst (step self s pp pb pc pu Fd os rs dt)))
   \<and> E_physical_flow (fst (step self s pp pb pc pu Fd os rs dt))
       + E_base_flow (fst (step self s pp pb pc pu Fd os rs dt))
       + E_core_flow (fst (step self s pp pb pc pu Fd os rs dt))
       + E_upper_flow (fst (step self s pp pb pc pu Fd os rs dt))
     = (E_physical_production (params self) (state_reacted s pp pb pc pu Fd)
         - conversion_physical2d (fst (step self s pp pb pc pu Fd os rs dt))
         + conversion_d2physical (fst (step self s pp pb pc pu Fd os rs dt))
         - beta_physical (params self) * E_physical s
         + social_coupling_physical (fst (step self s pp pb pc pu Fd os rs dt)))
       + (E_base_production (params self) (state_reacted s pp pb pc pu Fd)
         - conversion_base2d (fst (step self s pp pb pc pu Fd os rs dt))
         + conversion_d2base (fst (step self s pp pb pc pu Fd os rs dt))
         - beta_base (params self) * E_base s
         + social_coupling_base (fst (step self s pp pb pc pu Fd os rs dt)))
       + (E_core_production (params self) (state_reacted s pp pb pc pu Fd)
         - conversion_core2d (fst (step self s pp pb pc pu Fd os rs dt))
         + conversion_d2core (fst (step self s pp pb pc pu Fd os rs dt))
         - beta_core (params self) * E_core s
         + social_coupling_core (fst (step self s pp pb pc pu Fd os rs dt)))
       + (E_upper_production (params self) (state_reacted s pp pb pc pu Fd)
         - conversion_upper2d (fst (step self s pp pb pc pu Fd os rs dt))
         + conversion_d2upper (fst (step self s pp pb pc pu Fd os rs dt))
         - beta_upper (params self) * E_upper s
         + social_coupling_upper (fst (step self s pp pb pc pu Fd os rs dt)))
   \<and> (enable_interlayer_transfer (params self) \<longrightarrow>
        transfer_upper2base (fst (step self s pp pb pc pu Fd os rs dt))
          = gamma_upper2base (params self) * E_upper s * interlayer_transfer_strength (params self)
      \<and> transfer_upper2core (fst (step self s pp pb pc pu Fd os rs dt))
          = gamma_upper2core (params self) * E_upper s * interlayer_transfer_strength (params self)
      \<and> transfer_base2upper (fst (step self s pp pb pc pu Fd os rs dt))
          = gamma_base2upper (params self) * E_base s * interlayer_transfer_strength (params self)
      \<and> transfer_base2core (fst (step self s pp pb pc pu Fd os rs dt))
          = gamma_base2core (params self) * E_base s * interlayer_transfer_strength (params self)
      \<and> transfer_core2base (fst (step self s pp pb pc pu Fd os rs dt))
          = gamma_core2base (params self) * E_core s * interlayer_transfer_strength (params self)
      \<and> transfer_core2upper (fst (step self s pp pb pc pu Fd os rs dt))
          = gamma_core2upper (params self) * E_core s * interlayer_transfer_strength (params self)
      \<and> transfer_physical2base (fst (step self s pp pb pc pu Fd os rs dt))
          = gamma_physical2base (params self) * E_physical s
              * interlayer_transfer_strength (params self)
      \<and> transfer_physical2upper (fst (step self s pp pb pc pu Fd os rs dt))
          = gamma_physical2upper (params self) * E_physical s
              * interlayer_transfer_strength (params self))"
proof -
  let ?s' = "fst (step self s pp pb pc pu Fd os rs dt)"
  note fl = step_layer_flows [of self s pp pb pc pu Fd os rs dt]
  have amounts: "enable_interlayer_transfer (params self) \<Longrightarrow>
      transfer_upper2base ?s'
          = gamma_upper2base (params self) * E_upper s * interlayer_transfer_strength (params self)
      \<and> transfer_upper2core ?s'
          = gamma_upper2core (params self) * E_upper s * interlayer_transfer_strength (params self)
      \<and> transfer_base2upper ?s'
          = gamma_base2upper (params self) * E_base s * interlayer_transfer_strength (params self)
      \<and> transfer_base2core ?s'
          = gamma_base2core (params self) * E_base s * interlayer_transfer_strength (params self)
      \<and> transfer_core2base ?s'
          = gamma_core2base (params self) * E_core s * interlayer_transfer_strength (params self)
      \<and> transfer_core2upper ?s'
          = gamma_core2upper (params self) * E_core s * interlayer_transfer_strength (params self)
      \<and> transfer_physical2base ?s'
          = gamma_physical2base (params self) * E_physical s
              * interlayer_transfer_strength (params self)
      \<and> transfer_physical2upper ?s'
          = gamma_physical2upper (params self) * E_physical s
              * interlayer_transfer_strength (params self)"
    by (simp add: step_transfers interlayer_transfers_def compute_interlayer_transfers_def Let_def)
  have total: "E_physical_flow ?s' + E_base_flow ?s' + E_core_flow ?s' + E_upper_flow ?s'
     = (E_physical_production (params self) (state_reacted s pp pb pc pu Fd)
         - conversion_physical2d ?s' + conversion_d2physical ?s'
         - beta_physical (params self) * E_physical s + social_coupling_physical ?s')
       + (E_base_production (params self) (state_reacted s pp pb pc pu Fd)
         - conversion_base2d ?s' + conversion_d2base ?s'
         - beta_base (params self) * E_base s + social_coupling_base ?s')
       + (E_core_production (params self) (state_reacted s pp pb pc pu Fd)
         - conversion_core2d ?s' + conversion_d2core ?s'
         - beta_core (params self) * E_core s + social_coupling_core ?s')
       + (E_upper_production (params self) (state_reacted s pp pb pc pu Fd)
         - conversion_upper2d ?s' + conversion_d2upper ?s'
         - beta_upper (params self) * E_upper s + social_coupling_upper ?s')"
    unfolding fl by linarith
  show ?thesis
    using fl(1) fl(2) fl(3) fl(4) total amounts by blast
qed


text \<open>C5 at a concrete call: default parameters (transfer enabled), upper energy 10 and
  base energy 20; upper-to-base moves -0.4, base-to-upper moves 1.\<close>

theorem interlayer_transfer_conservation_witness:
  "enable_interlayer_transfer (params (new_engine default_params))
   \<and> transfer_upper2base (fst (step (new_engine default_params)
         (default_state \<lparr> E_base := 20, E_upper := 10 \<rparr>)
         zeros3 zeros3 zeros3 zeros3 None None None 1)) = - 2 / 5
   \<and> transfer_base2upper (fst (step (new_engine default_params)
         (default_state \<lparr> E_base := 20, E_upper := 10 \<rparr>)
         zeros3 zeros3 zeros3 zeros3 None None None 1)) = 1"
  using interlayer_transfer_conservation [of "new_engine default_params"
      "default_state \<lparr> E_base := 20, E_upper := 10 \<rparr>"
      zeros3 zeros3 zeros3 zeros3 None None None 1]
  by (simp add: new_engine_def default_params_def)

section \<open>The worked scenario in legacy mode\<close>

text \<open>
  C4, as amended. In static (legacy) mode, for a single agent with default parameters
  (\<open>Theta_base = 150\<close>, \<open>gamma_base2d = 0.08\<close>, multiplier 15), \<open>E_base = 120\<close>, zero
  pressure and \<open>dt = 1\<close>, one call to \<open>step\<close> reports \<open>conversion_base2d = 144\<close> and
  flags the base layer critical; the dominant layer stays \<open>NONE\<close>, since legacy mode
  resolves no dominant layer; the rate of \<open>E_base\<close> is -144 from the conversion, -0.6 from
  decay and -3.6 from the interlayer transfers out of the base layer, and the new
  \<open>E_base\<close> is clamped to 0.
\<close>

theorem legacy_worked_scenario:
  "conversion_base2d (fst (step
       (new_engine (default_params \<lparr> use_integrated_leap_detection := False \<rparr>))
       (default_state \<lparr> E_base := 120 \<rparr>) zeros3 zeros3 zeros3 zeros3 None None None 1)) = 144
   \<and> is_critical_base (fst (step
       (new_engine (default_params \<lparr> use_integrated_leap_detection := False \<rparr>))
       (default_state \<lparr> E_base := 120 \<rparr>) zeros3 zeros3 zeros3 zeros3 None None None 1))
   \<and> dominant_leap_layer (fst (step
       (new_engine (default_params \<lparr> use_integrated_leap_detection := False \<rparr>))
       (default_state \<lparr> E_base := 120 \<rparr>) zeros3 zeros3 zeros3 zeros3 None None None 1))
      = ''NONE''
   \<and> E_base_flow (fst (step
       (new_engine (default_params \<lparr> use_integrated_leap_detection := False \<rparr>))
       (default_state \<lparr> E_base := 120 \<rparr>) zeros3 zeros3 zeros3 zeros3 None None None 1))
      = - 144 - 6 / 10 - 36 / 10
   \<and> E_base (fst (step
       (new_engine (default_params \<lparr> use_integrated_leap_detection := False \<rparr>))
       (default_state \<lparr> E_base := 120 \<rparr>) zeros3 zeros3 zeros3 zeros3 None None None 1)) = 0"
proof -
  let ?P = "default_params \<lparr> use_integrated_leap_detection := False \<rparr>"
  let ?s = "default_state \<lparr> E_base := 120 \<rparr>"
  let ?s' = "fst (step (new_engine ?P) ?s zeros3 zeros3 zeros3 zeros3 None None None 1)"
  have P: "params (new_engine Q) = Q" for Q by (simp add: new_engine_def)
  have leg: "\<not> use_integrated_leap_detection ?P" by simp
  have conv: "conversion_base2d ?s' = 144"
    by (simp add: step_conversions P leap_phase_legacy legacy_labels
          state_learned_energy default_params_def default_state_def)
  have crit: "is_critical_base ?s'"
    by (simp add: step_labels P leap_phase_legacy legacy_labels
          state_learned_energy default_params_def default_state_def)
  have dom: "dominant_leap_layer ?s' = ''NONE''"
    by (simp add: step_labels P leap_phase_legacy legacy_labels)
  have flow: "E_base_flow ?s' = - 144 - 6 / 10 - 36 / 10"
    apply (simp only: step_layer_flows(2) conv)
    apply (simp add: P step_conversions(6) step_transfers step_social_none
          interlayer_transfers_def compute_interlayer_transfers_def E_base_production_def
          state_reacted_fields norm_v_residual norm_v_zeros3 default_params_def
          default_state_def)
    done
  have en: "E_base ?s' = 0"
    apply (simp only: step_layer_energy(2) flow)
    apply (simp add: default_state_def)
    done
  show ?thesis using conv crit dom flow en by simp
qed


text \<open>The reported conversion is the product of the three numbers of the scenario.\<close>

theorem legacy_worked_scenario_witness:
  "conversion_base2d (fst (step
       (new_engine (default_params \<lparr> use_integrated_leap_detection := False \<rparr>))
       (default_state \<lparr> E_base := 120 \<rparr>) zeros3 zeros3 zeros3 zeros3 None None None 1))
     = 8 / 100 * 15 * 120"
  using legacy_worked_scenario by simp

text \<open>C4 as stated fails in its dominant layer: after the call it is not \<open>BASE\<close>.\<close>

theorem legacy_dominant_layer_counterexample:
  "dominant_leap_layer (fst (step
       (new_engine (default_params \<lparr> use_integrated_leap_detection := False \<rparr>))
       (default_state \<lparr> E_base := 120 \<rparr>) zeros3 zeros3 zeros3 zeros3 None None None 1))
     \<noteq> ''BASE''"
proof -
  have "params (new_engine Q) = Q" for Q by (simp add: new_engine_def)
  then show ?thesis
    by (simp add: step_labels leap_phase_legacy legacy_labels)
qed

section \<open>Effects of \<open>step\<close> on the engine object\<close>

text \<open>
  C8, as amended. \<open>step\<close> is a deterministic function of the state, the parameters, the
  pressures, the snapshots of the other agents and \<open>dt\<close> to the new state: the engine
  object holds no random generator and \<open>step\<close> draws no random number. Its effect on the
  engine object is to advance \<open>time\<close> by \<open>dt\<close> and to add to the twelve statistics the
  eight conversions and four decays of the tick times \<open>dt\<close>; the parameter set is not
  written, and the new state does not depend on the statistics (it is the same from a
  freshly constructed engine with the same parameters).
\<close>

theorem step_engine_effects:
  "params (snd (step self s pp pb pc pu Fd os rs dt)) = params self
   \<and> time (snd (step self s pp pb pc pu Fd os rs dt)) = time self + dt
   \<and> total_conversion_physical2d (snd (step self s pp pb pc pu Fd os rs dt))
       = total_conversion_physical2d self
         + conversion_physical2d (fst (step self s pp pb pc pu Fd os rs dt)) * dt
   \<and> total_conversion_base2d (snd (step self s pp pb pc pu Fd os rs dt))
       = total_conversion_base2d self
         + conversion_base2d (fst (step self s pp pb pc pu Fd os rs dt)) * dt
   \<and> total_conversion_core2d (snd (step self s pp pb pc pu Fd os rs dt))
       = total_conversion_core2d self
         + conversion_core2d (fst (step self s pp pb pc pu Fd os rs dt)) * dt
   \<and> total_conversion_upper2d (snd (step self s pp pb pc pu Fd os rs dt))
       = total_conversion_upper2d self
         + conversion_upper2d (fst (step self s pp pb pc pu Fd os rs dt)) * dt
   \<and> total_conversion_d2physical (snd (step self s pp pb pc pu Fd os rs dt))
       = total_conversion_d2physical self
         + conversion_d2physical (fst (step self s pp pb pc pu Fd os rs dt)) * dt
   \<and> total_conversion_d2base (snd (step self s pp pb pc pu Fd os rs dt))
       = total_conversion_d2base self
         + conversion_d2base (fst (step self s pp pb pc pu Fd os rs dt)) * dt
   \<and> total_conversion_d2core (snd (step self s pp pb pc pu Fd os rs dt))
       = total_conversion_d2core self
         + conversion_d2core (fst (step self s pp pb pc pu Fd os rs dt)) * dt
   \<and> total_conversion_d2upper (snd (step self s pp pb pc pu Fd os rs dt))
       = total_conversion_d2upper self
         + conversion_d2upper (fst (step self s pp pb pc pu Fd os rs dt)) * dt
   \<and> total_decay_physical (snd (step self s pp pb pc pu Fd os rs dt))
       = total_decay_physical self + beta_physical (params self) * E_physical s * dt
   \<and> total_decay_base (snd (step self s pp pb pc pu Fd os rs dt))
       = total_decay_base self + beta_base (params self) * E_base s * dt
   \<and> total_decay_core (snd (step self s pp pb pc pu Fd os rs dt))
       = total_decay_core self + beta_core (params self) * E_core s * dt
   \<and> total_decay_upper (snd (step self s pp pb pc pu Fd os rs dt))
       = total_decay_upper self + beta_upper (params self) * E_upper s * dt
   \<and> fst (step self s pp pb pc pu Fd os rs dt)
       = fst (step (new_engine (params self)) s pp pb pc pu Fd os rs dt)"
proof -
  have "params self = params (new_engine (params self))" by (simp add: new_engine_def)
  then have indep: "fst (step self s pp pb pc pu Fd os rs dt)
       = fst (step (new_engine (params self)) s pp pb pc pu Fd os rs dt)"
    by (rule step_state_independent_of_statistics)
  have rest: "params (snd (step self s pp pb pc pu Fd os rs dt)) = params self
   \<and> time (snd (step self s pp pb pc pu Fd os rs dt)) = time self + dt"
    by (simp add: step_engine update_statistics_def)
  have conv: "total_conversion_physical2d (snd (step self s pp pb pc pu Fd os rs dt))
       = total_conversion_physical2d self
         + conversion_physical2d (fst (step self s pp pb pc pu Fd os rs dt)) * dt
   \<and> total_conversion_base2d (snd (step self s pp pb pc pu Fd os rs dt))
       = total_conversion_base2d self
         + conversion_base2d (fst (step self s pp pb pc pu Fd os rs dt)) * dt
   \<and> total_conversion_core2d (snd (step self s pp pb pc pu Fd os rs dt))
       = total_conversion_core2d self
         + conversion_core2d (fst (step self s pp pb pc pu Fd os rs dt)) * dt
   \<and> total_conversion_upper2d (snd (step self s pp pb pc pu Fd os rs dt))
       = total_conversion_upper2d self
         + conversion_upper2d (fst (step self s pp pb pc pu Fd os rs dt)) * dt
   \<and> total_conversion_d2physical (snd (step self s pp pb pc pu Fd os rs dt))
       = total_conversion_d2physical self
         + conversion_d2physical (fst (step self s pp pb pc pu Fd os rs dt)) * dt
   \<and> total_conversion_d2base (snd (step self s pp pb pc pu Fd os rs dt))
       = total_conversion_d2base self
         + conversion_d2base (fst (step self s pp pb pc pu Fd os rs dt)) * dt
   \<and> total_conversion_d2core (snd (step self s pp pb pc pu Fd os rs dt))
       = total_conversion_d2core self
         + conversion_d2core (fst (step self s pp pb pc pu Fd os rs dt)) * dt
   \<and> total_conversion_d2upper (snd (step self s pp pb pc pu Fd os rs dt))
       = total_conversion_d2upper self
         + conversion_d2upper (fst (step self s pp pb pc pu Fd os rs dt)) * dt"
    by (simp add: step_engine update_statistics_def step_conversions tick_values_fields
          leap_phase_energy)
  have dec: "total_decay_physical (snd (step self s pp pb pc pu Fd os rs dt))
       = total_decay_physical self + beta_physical (params self) * E_physical s * dt
   \<and> total_decay_base (snd (step self s pp pb pc pu Fd os rs dt))
       = total_decay_base self + beta_base (params self) * E_base s * dt
   \<and> total_decay_core (snd (step self s pp pb pc pu Fd os rs dt))
       = total_decay_core self + beta_core (params self) * E_core s * dt
   \<and> total_decay_upper (snd (step self s pp pb pc pu Fd os rs dt))
       = total_decay_upper self + beta_upper (params self) * E_upper s * dt"
    by (simp add: step_engine update_statistics_def tick_values_fields leap_phase_energy)
  show ?thesis using indep rest conv dec by simp
qed


text \<open>C8 as amended at a concrete call: from a fresh default engine with \<open>dt = 1\<close> the
  clock reads 1 and the parameters are the defaults.\<close>

theorem step_engine_effects_witness:
  "time (snd (step (new_engine default_params) default_state
       zeros3 zeros3 zeros3 zeros3 None None None 1)) = 1
   \<and> params (snd (step (new_engine default_params) default_state
       zeros3 zeros3 zeros3 zeros3 None None None 1)) = default_params"
  using step_engine_effects [of "new_engine default_params" default_state
      zeros3 zeros3 zeros3 zeros3 None None None 1]
  by (simp add: new_engine_def)

text \<open>C8 as stated fails: the call above mutates engine-owned state other than a random
  generator, the clock of the engine.\<close>

theorem step_mutates_statistics_counterexample:
  "time (snd (step (new_engine default_params) default_state
       zeros3 zeros3 zeros3 zeros3 None None None 1)) \<noteq> time (new_engine default_params)"
  by (simp add: step_engine update_statistics_def new_engine_def)


section \<open>Social coupling\<close>

text \<open>
  C9. A pairing whose relationship lies in the neutral band (at most the cooperation
  threshold and at least its negative, relationship 0 included when the threshold is not
  negative) leaves the accumulated coupling of every layer, energy and inertia, as it was;
  so the coupling computed with that pairing in the lists equals the coupling computed
  without it. An empty list of other agents gives the coupling that is zero in all eight
  entries.
\<close>

theorem neutral_pairing_contributes_nothing:
  "(relation \<le> cooperation_threshold P \<and> - cooperation_threshold P \<le> relation \<longrightarrow>
      coupling_pair P state c (other, relation) = c
      \<and> (length os1 = length rs1 \<longrightarrow>
           compute_social_coupling P state (os1 @ other # os2) (rs1 @ relation # rs2)
             = compute_social_coupling P state (os1 @ os2) (rs1 @ rs2)))
   \<and> compute_social_coupling P state [] rs = zero_coupling
   \<and> social_coupling P state (Some []) (Some rs) = zero_coupling
   \<and> physical_energy zero_coupling = 0 \<and> base_energy zero_coupling = 0
   \<and> core_energy zero_coupling = 0 \<and> upper_energy zero_coupling = 0
   \<and> physical_kappa zero_coupling = 0 \<and> base_kappa zero_coupling = 0
   \<and> core_kappa zero_coupling = 0 \<and> upper_kappa zero_coupling = 0"
proof -
  have pair: "compute_social_coupling P state (os1 @ other # os2) (rs1 @ relation # rs2)
             = compute_social_coupling P state (os1 @ os2) (rs1 @ rs2)"
    if n: "relation \<le> cooperation_threshold P" "- cooperation_threshold P \<le> relation"
      and l: "length os1 = length rs1"
  proof (cases "os1 @ os2 = []")
    case True
    then show ?thesis using n l by (simp add: compute_social_coupling_def coupling_pair_neutral)
  next
    case False
    then show ?thesis
      using foldl_skip_neutral [OF l n, of state zero_coupling other os2 rs2]
      by (auto simp add: compute_social_coupling_def)
  qed
  have empty: "compute_social_coupling P state [] rs = zero_coupling"
    by (simp add: compute_social_coupling_def)
  show ?thesis
    using pair empty by (simp add: coupling_pair_neutral social_coupling_def zero_coupling_def)
qed


text \<open>C9 at a concrete call: default parameters (threshold 0.5), one other agent with
  base energy 50 and relationship 0.\<close>

theorem neutral_pairing_contributes_nothing_witness:
  "(0::real) \<le> cooperation_threshold default_params
   \<and> - cooperation_threshold default_params \<le> (0::real)
   \<and> compute_social_coupling default_params default_state
        [default_state \<lparr> E_base := 50 \<rparr>] [0] = zero_coupling"
  using neutral_pairing_contributes_nothing [of 0 default_params default_state zero_coupling
      "default_state \<lparr> E_base := 50 \<rparr>" "[]" "[]" "[]" "[]" "[]"]
  by (simp add: default_params_def)

section \<open>Dominant layer in integrated leap detection\<close>

text \<open>
  C6. In \<open>_integrated_leap_detection\<close> a layer is critical when its energy is below its
  dynamic threshold. When no layer is critical the dominant layer is \<open>NONE\<close> and the leap
  type is \<open>NO_LEAP\<close>. When some layer is critical the dominant layer is one of the four
  layers and the leap type is \<open>LEAP_\<close> followed by its name; a layer is dominant exactly
  when it is critical, no critical layer has greater structural power, and every critical
  layer before it in the order PHYSICAL, BASE, CORE, UPPER has strictly smaller power (so
  a tie goes to the earlier layer).
\<close>

theorem dominant_layer_resolution:
  "(\<not> E_physical s < theta_physical_dynamic P s sp \<and> \<not> E_base s < theta_base_dynamic P s sp
     \<and> \<not> E_core s < theta_core_dynamic P s sp \<and> \<not> E_upper s < theta_upper_dynamic P s sp
    \<longrightarrow> lr_dominant_layer (integrated_leap_detection P s sp) = ''NONE''
        \<and> lr_leap_type (integrated_leap_detection P s sp) = ''NO_LEAP'')
   \<and> (E_physical s < theta_physical_dynamic P s sp \<or> E_base s < theta_base_dynamic P s sp
     \<or> E_core s < theta_core_dynamic P s sp \<or> E_upper s < theta_upper_dynamic P s sp
    \<longrightarrow> lr_dominant_layer (integrated_leap_detection P s sp)
          \<in> {''PHYSICAL'', ''BASE'', ''CORE'', ''UPPER''}
        \<and> lr_leap_type (integrated_leap_detection P s sp)
          = ''LEAP_'' @ lr_dominant_layer (integrated_leap_detection P s sp))
   \<and> (lr_dominant_layer (integrated_leap_detection P s sp) = ''PHYSICAL'' \<longleftrightarrow>
        E_physical s < theta_physical_dynamic P s sp
        \<and> (E_base s < theta_base_dynamic P s sp
             \<longrightarrow> total_power (BASE sp) \<le> total_power (PHYSICAL sp))
        \<and> (E_core s < theta_core_dynamic P s sp
             \<longrightarrow> total_power (CORE sp) \<le> total_power (PHYSICAL sp))
        \<and> (E_upper s < theta_upper_dynamic P s sp
             \<longrightarrow> total_power (UPPER sp) \<le> total_power (PHYSICAL sp)))
   \<and> (lr_dominant_layer (integrated_leap_detection P s sp) = ''BASE'' \<longleftrightarrow>
        E_base s < theta_base_dynamic P s sp
        \<and> (E_physical s < theta_physical_dynamic P s sp
             \<longrightarrow> total_power (PHYSICAL sp) < total_power (BASE sp))
        \<and> (E_core s < theta_core_dynamic P s sp
             \<longrightarrow> total_power (CORE sp) \<le> total_power (BASE sp))
        \<and> (E_upper s < theta_upper_dynamic P s sp
             \<longrightarrow> total_power (UPPER sp) \<le> total_power (BASE sp)))
   \<and> (lr_dominant_layer (integrated_leap_detection P s sp) = ''CORE'' \<longleftrightarrow>
        E_core s < theta_core_dynamic P s sp
        \<and> (E_physical s < theta_physical_dynamic P s sp
             \<longrightarrow> total_power (PHYSICAL sp) < total_power (CORE sp))
        \<and> (E_base s < theta_base_dynamic P s sp
             \<longrightarrow> total_power (BASE sp) < total_power (CORE sp))
        \<and> (E_upper s < theta_upper_dynamic P s sp
             \<longrightarrow> total_power (UPPER sp) \<le> total_power (CORE sp)))
   \<and> (lr_dominant_layer (integrated_leap_detection P s sp) = ''UPPER'' \<longleftrightarrow>
        E_upper s < theta_upper_dynamic P s sp
        \<and> (E_physical s < theta_physical_dynamic P s sp
             \<longrightarrow> total_power (PHYSICAL sp) < total_power (UPPER sp))
        \<and> (E_base s < theta_base_dynamic P s sp
             \<longrightarrow> total_power (BASE sp) < total_power (UPPER sp))
        \<and> (E_core s < theta_core_dynamic P s sp
             \<longrightarrow> total_power (CORE sp) < total_power (UPPER sp)))"
proof -
  let ?d = "lr_dominant_layer (integrated_leap_detection P s sp)"
  have d: "?d = (case (if E_physical s < theta_physical_dynamic P s sp
                       then [(''PHYSICAL'', total_power (PHYSICAL sp))] else [])
                   @ (if E_base s < theta_base_dynamic P s sp
                       then [(''BASE'', total_power (BASE sp))] else [])
                   @ (if E_core s < theta_core_dynamic P s sp
                       then [(''CORE'', total_power (CORE sp))] else [])
                   @ (if E_upper s < theta_upper_dynamic P s sp
                       then [(''UPPER'', total_power (UPPER sp))] else [])
                 of [] \<Rightarrow> ''NONE'' | c # cs \<Rightarrow> fst (py_max_from c cs))"
    unfolding dominant_layer_as_case critical_layers_def ..
  have none: "critical_layers P s sp = [] \<Longrightarrow> ?d = ''NONE''
      \<and> lr_leap_type (integrated_leap_detection P s sp) = ''NO_LEAP''"
    by (simp add: dominant_layer_as_case leap_type_as_case)
  have some_type: "critical_layers P s sp \<noteq> [] \<Longrightarrow>
      lr_leap_type (integrated_leap_detection P s sp) = ''LEAP_'' @ ?d"
    by (simp add: leap_type_as_case split: list.split)
  have phys: "?d = ''PHYSICAL'' \<longleftrightarrow>
        E_physical s < theta_physical_dynamic P s sp
        \<and> (E_base s < theta_base_dynamic P s sp
             \<longrightarrow> total_power (BASE sp) \<le> total_power (PHYSICAL sp))
        \<and> (E_core s < theta_core_dynamic P s sp
             \<longrightarrow> total_power (CORE sp) \<le> total_power (PHYSICAL sp))
        \<and> (E_upper s < theta_upper_dynamic P s sp
             \<longrightarrow> total_power (UPPER sp) \<le> total_power (PHYSICAL sp))"
    unfolding d by (rule first_maximum_physical)
  have base: "?d = ''BASE'' \<longleftrightarrow>
        E_base s < theta_base_dynamic P s sp
        \<and> (E_physical s < theta_physical_dynamic P s sp
             \<longrightarrow> total_power (PHYSICAL sp) < total_power (BASE sp))
        \<and> (E_core s < theta_core_dynamic P s sp
             \<longrightarrow> total_power (CORE sp) \<le> total_power (BASE sp))
        \<and> (E_upper s < theta_upper_dynamic P s sp
             \<longrightarrow> total_power (UPPER sp) \<le> total_power (BASE sp))"
    unfolding d by (rule first_maximum_base)
  have core: "?d = ''CORE'' \<longleftrightarrow>
        E_core s < theta_core_dynamic P s sp
        \<and> (E_physical s < theta_physical_dynamic P s sp
             \<longrightarrow> total_power (PHYSICAL sp) < total_power (CORE sp))
        \<and> (E_base s < theta_base_dynamic P s sp
             \<longrightarrow> total_power (BASE sp) < total_power (CORE sp))
        \<and> (E_upper s < theta_upper_dynamic P s sp
             \<longrightarrow> total_power (UPPER sp) \<le> total_power (CORE sp))"
    unfolding d by (rule first_maximum_core)
  have upper: "?d = ''UPPER'' \<longleftrightarrow>
        E_upper s < theta_upper_dynamic P s sp
        \<and> (E_physical s < theta_physical_dynamic P s sp
             \<longrightarrow> total_power (PHYSICAL sp) < total_power (UPPER sp))
        \<and> (E_base s < theta_base_dynamic P s sp
             \<longrightarrow> total_power (BASE sp) < total_power (UPPER sp))
        \<and> (E_core s < theta_core_dynamic P s sp
             \<longrightarrow> total_power (CORE sp) < total_power (UPPER sp))"
    unfolding d by (rule first_maximum_upper)
  have member: "critical_layers P s sp \<noteq> [] \<Longrightarrow>
      ?d \<in> {''PHYSICAL'', ''BASE'', ''CORE'', ''UPPER''}"
    unfolding critical_layers_empty d by (rule first_maximum_member) blast
  show ?thesis
    using none some_type member phys base core upper critical_layers_empty [of P s sp]
    by blast
qed


text \<open>C6 at a concrete call: default parameters, base energy 100 under unit base
  pressure. All four layers are critical; the base layer has power 10000, the others 0,
  and the base layer is dominant.\<close>

theorem dominant_layer_resolution_witness:
  "E_base (default_state \<lparr> E_base := 100 \<rparr>)
     < theta_base_dynamic default_params (default_state \<lparr> E_base := 100 \<rparr>)
         (calculate_structural_powers (default_state \<lparr> E_base := 100 \<rparr>)
            zeros3 [1, 0, 0] zeros3 zeros3)
   \<and> lr_dominant_layer (integrated_leap_detection default_params
        (default_state \<lparr> E_base := 100 \<rparr>)
        (calculate_structural_powers (default_state \<lparr> E_base := 100 \<rparr>)
           zeros3 [1, 0, 0] zeros3 zeros3)) = ''BASE''"
  using dominant_layer_resolution [of "default_state \<lparr> E_base := 100 \<rparr>" default_params
      "calculate_structural_powers (default_state \<lparr> E_base := 100 \<rparr>)
         zeros3 [1, 0, 0] zeros3 zeros3"]
  by (simp add: theta_physical_dynamic_def theta_base_dynamic_def theta_core_dynamic_def
        theta_upper_dynamic_def compute_dynamic_theta_def calculate_structural_powers_def
        R_PHYSICAL_def R_BASE_def R_CORE_def R_UPPER_def norm_v_unit norm_v_zeros3
        default_params_def default_state_def Let_def)

section \<open>Stochastic leap probability\<close>

text \<open>
  C7. For every energy \<open>E\<close>, threshold \<open>Th\<close>, sensitivity \<open>g > 0\<close>, baseline \<open>h0 > 0\<close> and
  \<open>dt > 0\<close>, the jump probability of a tick is \<open>1 - exp (- h * dt)\<close> with
  \<open>h = h0 * exp ((Th - E) / g)\<close> when \<open>E < Th\<close> and \<open>h = h0\<close> otherwise; it is strictly
  positive for every \<open>E\<close>; for every \<open>eps > 0\<close> it is strictly greater at \<open>E = Th - eps\<close>
  than at \<open>E = Th\<close>; and at \<open>E = Th\<close> it is \<open>1 - exp (- h0 * dt)\<close>, which lies between
  \<open>h0 * dt / (1 + h0 * dt)\<close> and \<open>h0 * dt\<close>.
\<close>

theorem jump_probability_properties:
  "0 < h0 \<Longrightarrow> 0 < g \<Longrightarrow> 0 < dt \<Longrightarrow>
     jump_probability h0 g dt Th E
       = 1 - exp (- (if E < Th then h0 * exp ((Th - E) / g) else h0) * dt)
     \<and> 0 < jump_probability h0 g dt Th E
     \<and> (0 < eps \<longrightarrow>
          jump_probability h0 g dt Th Th < jump_probability h0 g dt Th (Th - eps))
     \<and> jump_probability h0 g dt Th Th = 1 - exp (- (h0 * dt))
     \<and> h0 * dt / (1 + h0 * dt) \<le> jump_probability h0 g dt Th Th
     \<and> jump_probability h0 g dt Th Th \<le> h0 * dt"
proof -
  assume pos: "0 < h0" "0 < g" "0 < dt"
  have formula: "jump_probability h0 g dt Th E
           = 1 - exp (- (if E < Th then h0 * exp ((Th - E) / g) else h0) * dt)"
    by (simp add: jump_probability_def hazard_def Let_def)
  have "0 < hazard h0 g Th E * dt" using pos hazard_pos by simp
  then have positive: "0 < jump_probability h0 g dt Th E"
    by (simp add: jump_probability_def)
  have mono: "0 < eps \<longrightarrow>
      jump_probability h0 g dt Th Th < jump_probability h0 g dt Th (Th - eps)"
  proof
    assume "0 < eps"
    then have "h0 < hazard h0 g Th (Th - eps)" using pos hazard_below by simp
    then have "hazard h0 g Th Th * dt < hazard h0 g Th (Th - eps) * dt"
      using pos by (simp add: hazard_at_threshold)
    then show "jump_probability h0 g dt Th Th < jump_probability h0 g dt Th (Th - eps)"
      by (simp add: jump_probability_def)
  qed
  have eq: "jump_probability h0 g dt Th Th = 1 - exp (- (h0 * dt))"
    by (simp add: jump_probability_def hazard_at_threshold)
  have x: "0 < h0 * dt" using pos by simp
  have lower: "h0 * dt / (1 + h0 * dt) \<le> jump_probability h0 g dt Th Th"
    unfolding eq by (rule one_minus_exp_bounds(1) [OF x])
  have upper: "jump_probability h0 g dt Th Th \<le> h0 * dt"
    unfolding eq by (rule one_minus_exp_bounds(2) [OF x])
  show ?thesis using formula positive mono eq lower upper by blast
qed

text \<open>C7 at the constants of the source (\<open>h0 = 0.01\<close>, \<open>gamma = 50\<close>, \<open>dt = 0.1\<close>), with
  threshold 300: the probability is positive at energy 250, greater there than at the
  threshold, and at the threshold at most 0.001.\<close>

theorem jump_probability_properties_witness:
  "(0::real) < 1 / 100 \<and> (0::real) < 50 \<and> (0::real) < 1 / 10 \<and> (0::real) < 50
   \<and> 0 < jump_probability (1 / 100) 50 (1 / 10) 300 250
   \<and> jump_probability (1 / 100) 50 (1 / 10) 300 300
       < jump_probability (1 / 100) 50 (1 / 10) 300 (300 - 50)
   \<and> jump_probability (1 / 100) 50 (1 / 10) 300 300 \<le> 1 / 1000"
  using jump_probability_properties [of "1 / 100" 50 "1 / 10" 300 250 50]
  by simp

end
